theory Spec2Isabelle
  imports Complex_Main
begin

section \<open>Data model: models/theme\_spec.py and models/document\_spec.py\<close>

text \<open>
  A Python string is a sequence of code points. The document title, the output file name
  and the directories are modelled as such (\<open>pystr\<close>): the code looks at their
  characters one by one. The texts of the pages, the image references, the names of the
  temporary files and the strings of the theme are only stored, concatenated, compared,
  split at newlines and tested for ASCII prefixes; they are modelled as
  \<^typ>\<open>string\<close>, the bytes of their UTF-8 encoding, on which these operations agree
  with the code points. An \<open>Optional[...]\<close> field is an \<^typ>\<open>'a option\<close>. Python's
  truth test \<open>if x:\<close> on an optional string or list holds when the value is set and not
  empty; it is written \<open>truthy\<close> below, and a field is called \<^emph>\<open>given\<close> when it is
  truthy. The \<open>float\<close> fields of the theme are only stored and compared, never computed
  with; they are modelled as \<^typ>\<open>real\<close>.
\<close>

type_synonym codepoint = nat

type_synonym pystr = "codepoint list"

text \<open>An ASCII literal of the source, as code points.\<close>

definition ustr :: "string \<Rightarrow> pystr" where
  "ustr s = map of_char s"

fun truthy :: "'a list option \<Rightarrow> bool" where
  "truthy None = False"
| "truthy (Some xs) = (xs \<noteq> [])"

text \<open>\<open>if x: <emit f(x)>\<close>: the primitives a given field contributes, none otherwise.\<close>

fun if_given :: "'a list option \<Rightarrow> ('a list \<Rightarrow> 'b list) \<Rightarrow> 'b list" where
  "if_given None f = []"
| "if_given (Some xs) f = (if xs = [] then [] else f xs)"

text \<open>Python's \<open>a or b\<close> on optional strings: \<open>a\<close> when it is truthy, \<open>b\<close> otherwise.\<close>

definition py_or :: "'a list option \<Rightarrow> 'a list option \<Rightarrow> 'a list option" where
  "py_or a b = (if truthy a then a else b)"

subsection \<open>Theme\<close>

text \<open>
  \<open>ColorPalette\<close>, \<open>FontPalette\<close> and \<open>ThemeSpec\<close>. The fields \<open>text\<close> of the colours and
  \<open>code\<close> of the fonts are \<open>text_color\<close> and \<open>code_font\<close> here.
\<close>

record ColorPalette =
  primary :: string
  secondary :: string
  accent :: string
  background :: string
  text_color :: string
  code_bg :: string

record FontPalette =
  heading :: string
  body :: string
  code_font :: string

record ThemeSpec =
  colors :: ColorPalette
  fonts :: FontPalette
  logo_path :: "string option"
  title_font_size :: int
  subtitle_font_size :: int
  h1_font_size :: int
  h2_font_size :: int
  h3_font_size :: int
  body_font_size :: int
  code_font_size :: int
  line_spacing :: real
  paragraph_spacing :: real
  page_width :: real
  page_height :: real
  margin_top :: real
  margin_bottom :: real
  margin_left :: real
  margin_right :: real

text \<open>
  The input of a theme, before validation: every field may be missing, and the two nested
  groups may be missing as a whole or carry any subset of their own fields.
\<close>

record ColorPaletteInput =
  in_primary :: "string option"
  in_secondary :: "string option"
  in_accent :: "string option"
  in_background :: "string option"
  in_text_color :: "string option"
  in_code_bg :: "string option"

record FontPaletteInput =
  in_heading :: "string option"
  in_body :: "string option"
  in_code_font :: "string option"

record ThemeSpecInput =
  in_colors :: "ColorPaletteInput option"
  in_fonts :: "FontPaletteInput option"
  in_logo_path :: "string option"
  in_title_font_size :: "int option"
  in_subtitle_font_size :: "int option"
  in_h1_font_size :: "int option"
  in_h2_font_size :: "int option"
  in_h3_font_size :: "int option"
  in_body_font_size :: "int option"
  in_code_font_size :: "int option"
  in_line_spacing :: "real option"
  in_paragraph_spacing :: "real option"
  in_page_width :: "real option"
  in_page_height :: "real option"
  in_margin_top :: "real option"
  in_margin_bottom :: "real option"
  in_margin_left :: "real option"
  in_margin_right :: "real option"

text \<open>\<open>Field(default, ...)\<close>: the supplied value, or the declared default.\<close>

fun field :: "'a \<Rightarrow> 'a option \<Rightarrow> 'a" where
  "field d None = d"
| "field d (Some v) = v"

definition no_colors :: ColorPaletteInput where
  "no_colors = \<lparr>in_primary = None, in_secondary = None, in_accent = None,
     in_background = None, in_text_color = None, in_code_bg = None\<rparr>"

definition no_fonts :: FontPaletteInput where
  "no_fonts = \<lparr>in_heading = None, in_body = None, in_code_font = None\<rparr>"

definition no_theme :: ThemeSpecInput where
  "no_theme = \<lparr>in_colors = None, in_fonts = None, in_logo_path = None,
     in_title_font_size = None, in_subtitle_font_size = None, in_h1_font_size = None,
     in_h2_font_size = None, in_h3_font_size = None, in_body_font_size = None,
     in_code_font_size = None, in_line_spacing = None, in_paragraph_spacing = None,
     in_page_width = None, in_page_height = None, in_margin_top = None,
     in_margin_bottom = None, in_margin_left = None, in_margin_right = None\<rparr>"

text \<open>The defaults are those of the \<open>Field\<close> declarations of theme\_spec.py.\<close>

definition resolve_colors :: "ColorPaletteInput \<Rightarrow> ColorPalette" where
  "resolve_colors c =
     \<lparr>primary = field ''#E3342F'' (in_primary c),
      secondary = field ''#1CCBD0'' (in_secondary c),
      accent = field ''#F59E0B'' (in_accent c),
      background = field ''#FFFFFF'' (in_background c),
      text_color = field ''#111827'' (in_text_color c),
      code_bg = field ''#F5F5F5'' (in_code_bg c)\<rparr>"

definition resolve_fonts :: "FontPaletteInput \<Rightarrow> FontPalette" where
  "resolve_fonts f =
     \<lparr>heading = field ''Helvetica-Bold'' (in_heading f),
      body = field ''Helvetica'' (in_body f),
      code_font = field ''Courier'' (in_code_font f)\<rparr>"

text \<open>
  \<open>default_factory=ColorPalette\<close>: a missing group is the group built from no input.
\<close>

definition resolve_theme :: "ThemeSpecInput \<Rightarrow> ThemeSpec" where
  "resolve_theme t =
     \<lparr>colors = resolve_colors (field no_colors (in_colors t)),
      fonts = resolve_fonts (field no_fonts (in_fonts t)),
      logo_path = in_logo_path t,
      title_font_size = field 24 (in_title_font_size t),
      subtitle_font_size = field 16 (in_subtitle_font_size t),
      h1_font_size = field 18 (in_h1_font_size t),
      h2_font_size = field 14 (in_h2_font_size t),
      h3_font_size = field 12 (in_h3_font_size t),
      body_font_size = field 10 (in_body_font_size t),
      code_font_size = field 9 (in_code_font_size t),
      line_spacing = field 1.2 (in_line_spacing t),
      paragraph_spacing = field 6 (in_paragraph_spacing t),
      page_width = field 612 (in_page_width t),
      page_height = field 792 (in_page_height t),
      margin_top = field 72 (in_margin_top t),
      margin_bottom = field 72 (in_margin_bottom t),
      margin_left = field 72 (in_margin_left t),
      margin_right = field 72 (in_margin_right t)\<rparr>"

subsection \<open>Pages and documents\<close>

datatype PageType =
  TITLE | TOC | SECTION | CONTENT | CODE | DIAGRAM | IMAGE | MERMAID | SUMMARY | REFERENCES

text \<open>The value of a member of the string enumeration \<open>PageType\<close>.\<close>

fun page_type_value :: "PageType \<Rightarrow> string" where
  "page_type_value TITLE = ''title''"
| "page_type_value TOC = ''toc''"
| "page_type_value SECTION = ''section''"
| "page_type_value CONTENT = ''content''"
| "page_type_value CODE = ''code''"
| "page_type_value DIAGRAM = ''diagram''"
| "page_type_value IMAGE = ''image''"
| "page_type_value MERMAID = ''mermaid''"
| "page_type_value SUMMARY = ''summary''"
| "page_type_value REFERENCES = ''references''"

text \<open>\<open>ContentItem\<close>; its fields carry the prefix \<open>item_\<close>.\<close>

record ContentItem =
  item_type :: string
  item_text :: "string option"
  item_items :: "string list option"
  item_code :: "string option"
  item_language :: "string option"
  item_image_path :: "string option"
  item_image_url :: "string option"
  item_caption :: "string option"
  item_table_data :: "string list list option"
  item_table_headers :: "string list option"

text \<open>\<open>Optional[Union[str, List[str]]]\<close>, the type of \<open>PageSpec.description\<close>.\<close>

datatype description = DescStr string | DescList "string list"

record PageSpec =
  page_type :: PageType
  title :: "string option"
  subtitle :: "string option"
  author :: "string option"
  date :: "string option"
  additional_info :: "string option"
  entries :: "string list option"
  content :: "ContentItem list option"
  code :: "string option"
  language :: "string option"
  line_numbers :: bool
  image_path :: "string option"
  image_url :: "string option"
  diagram_path :: "string option"
  diagram_url :: "string option"
  caption :: "string option"
  description :: "description option"
  mermaid_code :: "string option"
  key_points :: "string list option"
  conclusion :: "string option"
  references :: "string list option"
  style :: string

record OutputSpec =
  filename :: "pystr option"
  directory :: pystr

text \<open>\<open>DocumentSpec\<close>; its fields \<open>title\<close> and \<open>output\<close> are \<open>doc_title\<close> and
  \<open>doc_output\<close> here.\<close>

record DocumentSpec =
  doc_title :: pystr
  theme :: ThemeSpec
  pages :: "PageSpec list"
  doc_output :: OutputSpec

section \<open>The composition pipeline: rendering/pdf\_generator.py\<close>

subsection \<open>Layout primitives, exceptions and the world of a run\<close>

text \<open>
  The keys of the style table \<open>self.styles\<close>, and the caption style that \<open>_add_image\<close>
  derives from the body style.
\<close>

datatype style_role =
  S_title | S_subtitle | S_h1 | S_h2 | S_h3 | S_body | S_bullet | S_code | S_caption

text \<open>
  The flowables of the layout backend that the generator appends to \<open>self.story\<close>.
  \<open>Spacer n\<close> is \<open>Spacer(1, h)\<close> with the height \<open>h\<close> in hundredths of an inch;
  \<open>Image p\<close> is \<open>Image(p, width=4*inch, height=3*inch)\<close>; \<open>Preformatted c\<close> is the code
  block in the code style with \<open>maxLineLength=100\<close>; \<open>Table rows\<close> is the table with the
  fixed table style of \<open>_add_table\<close>.
\<close>

datatype flowable =
  Spacer nat
| Paragraph string style_role
| PageBreak
| Image string
| Preformatted string
| Table "string list list"

text \<open>
  The exceptions that leave \<open>generate_pdf\<close>. \<open>AttributeError\<close> is what the backend's
  \<open>Paragraph(None, style)\<close> raises (the constructor splits its text into lines).
  \<open>ValueError\<close> carries its message: the backend raises it for a text whose inline
  markup it cannot parse, for a colour it cannot read and for a table it cannot build,
  and the operating system raises it for a path that holds a NUL character.
  \<open>RuntimeError\<close> is the one \<open>generate_pdf\<close> raises itself. \<open>BuildException\<close> is any
  exception of \<open>doc.build\<close>.
\<close>

datatype error = AttributeError | ValueError string | RuntimeError pystr | BuildException

text \<open>How the external renderer \<open>npx ... mmdc\<close> ends: \<open>subprocess.run\<close> returns with an
  exit code, or raises.\<close>

datatype mmdc_outcome = Exited int | TimeoutExpired | FileNotFoundError | OtherException

text \<open>The reading of the clock, \<open>datetime.now()\<close>.\<close>

record datetime =
  year :: nat
  month :: nat
  day :: nat
  hour :: nat
  minute :: nat
  second :: nat
  microsecond :: nat

text \<open>
  What the run observes of its surroundings; the code is modelled for every value of
  these parameters.
  \<^item> The operating system answers each call the generator makes on a directory:
    \<open>dir_exists\<close>, \<open>mkdir_ok\<close>, \<open>touch_ok\<close> and \<open>probe_unlink_ok\<close> for the requested
    directory and its sentinel file, \<open>fb_exists\<close> and \<open>fb_mkdir_ok\<close> for the fallback
    directory (asked after the requested one failed); \<open>False\<close> for an action is an
    \<open>OSError\<close>. \<open>path_of\<close> is \<open>str(Path(s))\<close>, the normalised form of a path, and
    \<open>joinpath\<close> the operator \<open>/\<close> of \<open>pathlib\<close>. \<open>OUTPUT_DIR\<close> is the environment
    variable and \<open>home\<close> is \<open>Path.home()\<close>.
  \<^item> \<open>isalnum\<close> and \<open>lower\<close> are the string methods of these names, \<open>now\<close> is the clock.
  \<^item> The layout backend: \<open>hexcolor_error\<close>, \<open>paragraph_error\<close>, \<open>table_error\<close> and
    \<open>image_error\<close> give the message of the exception that \<open>HexColor(s)\<close>,
    \<open>Paragraph(s, style)\<close>, \<open>Table(rows)\<close> and \<open>Image(path, ...)\<close> raise, \<open>None\<close> when
    they return; \<open>build_ok\<close> tells whether \<open>doc.build\<close> returns, given the output path,
    the story and the files that exist when it runs (the backend reads the image files
    then), and \<open>build_rest\<close> is what a build that raises leaves of the list it was
    given.
  \<^item> Temporary files and the network: \<open>tmp_name n suffix\<close> is the name
    \<open>NamedTemporaryFile\<close> gives the \<open>n\<close>-th temporary file of the run; \<open>url_ext\<close> is the
    extension of a URL's path, empty when it has none; \<open>urlopen_ok\<close> tells whether the
    download of a URL succeeds; \<open>mmdc\<close> is how the renderer ends on a diagram source;
    \<open>can_unlink\<close> tells whether \<open>os.unlink\<close> of a temporary file succeeds.
\<close>

record env =
  path_of :: "pystr \<Rightarrow> pystr"
  joinpath :: "pystr \<Rightarrow> pystr \<Rightarrow> pystr"
  dir_exists :: "pystr \<Rightarrow> bool"
  mkdir_ok :: "pystr \<Rightarrow> bool"
  touch_ok :: "pystr \<Rightarrow> bool"
  probe_unlink_ok :: "pystr \<Rightarrow> bool"
  fb_exists :: "pystr \<Rightarrow> bool"
  fb_mkdir_ok :: "pystr \<Rightarrow> bool"
  OUTPUT_DIR :: "pystr option"
  home :: pystr
  isalnum :: "codepoint \<Rightarrow> bool"
  lower :: "pystr \<Rightarrow> pystr"
  now :: datetime
  hexcolor_error :: "string \<Rightarrow> string option"
  paragraph_error :: "string \<Rightarrow> style_role \<Rightarrow> string option"
  table_error :: "string list list \<Rightarrow> string option"
  image_error :: "string \<Rightarrow> string option"
  build_ok :: "pystr \<Rightarrow> flowable list \<Rightarrow> string set \<Rightarrow> bool"
  build_rest :: "pystr \<Rightarrow> flowable list \<Rightarrow> string set \<Rightarrow> flowable list"
  tmp_name :: "nat \<Rightarrow> string \<Rightarrow> string"
  url_ext :: "string \<Rightarrow> string"
  urlopen_ok :: "string \<Rightarrow> bool"
  mmdc :: "string \<Rightarrow> mmdc_outcome"
  can_unlink :: "string \<Rightarrow> bool"

text \<open>
  The mutable state of a run: the generator's \<open>story\<close> and \<open>downloaded_images\<close>, the
  files that exist as far as the generator asks (\<open>os.path.exists\<close> on the path of an
  image; the output file is not among them), and the number of temporary files created
  so far.
\<close>

record world =
  story :: "flowable list"
  downloaded_images :: "string list"
  fs :: "string set"
  tmp_count :: nat

definition story_append :: "world \<Rightarrow> flowable list \<Rightarrow> world" where
  "story_append w xs = w\<lparr>story := story w @ xs\<rparr>"

subsection \<open>Steps\<close>

text \<open>
  A step of a composer changes the world, or raises: it returns the exception with the
  world as the exception leaves it. \<open>run\<close> does the steps of a list in turn and stops
  at the first that raises.
\<close>

type_synonym composed = "(error \<times> world) + world"

type_synonym step = "world \<Rightarrow> composed"

fun run :: "step list \<Rightarrow> step" where
  "run [] w = Inr w"
| "run (s # ss) w = (case s w of Inl ew \<Rightarrow> Inl ew | Inr w' \<Rightarrow> run ss w')"

text \<open>\<open>self.story.append(x)\<close> for a flowable whose constructor does not raise.\<close>

definition emit :: "flowable \<Rightarrow> step" where
  "emit x w = Inr (story_append w [x])"

text \<open>\<open>self.story.append(Paragraph(text, style))\<close>: the constructor parses the inline
  markup of the text and may raise; nothing is appended then.\<close>

definition para :: "env \<Rightarrow> string \<Rightarrow> style_role \<Rightarrow> step" where
  "para env txt st w =
     (case paragraph_error env txt st of
        Some msg \<Rightarrow> Inl (ValueError msg, w)
      | None \<Rightarrow> Inr (story_append w [Paragraph txt st]))"

text \<open>The same for a text that is an optional string and is passed as it is.\<close>

definition para_opt :: "env \<Rightarrow> string option \<Rightarrow> style_role \<Rightarrow> step" where
  "para_opt env t st w =
     (case t of None \<Rightarrow> Inl (AttributeError, w) | Some txt \<Rightarrow> para env txt st w)"

text \<open>\<open>self.story.append(Table(rows))\<close> with the style of \<open>_add_table\<close>; the colour of
  the style is the primary colour, which \<open>_setup_styles\<close> has read before.\<close>

definition table :: "env \<Rightarrow> string list list \<Rightarrow> step" where
  "table env rows w =
     (case table_error env rows of
        Some msg \<Rightarrow> Inl (ValueError msg, w)
      | None \<Rightarrow> Inr (story_append w [Table rows]))"

subsection \<open>Strings\<close>

definition startswith :: "string \<Rightarrow> string \<Rightarrow> bool" where
  "startswith s p = (take (length p) s = p)"

definition is_url :: "string \<Rightarrow> bool" where
  "is_url path = (startswith path ''http://'' \<or> startswith path ''https://'')"

text \<open>The bullet glyph U+2022, in UTF-8.\<close>

definition bullet_glyph :: string where
  "bullet_glyph = [CHR 0xE2, CHR 0x80, CHR 0xA2]"

definition bullet_text :: "string \<Rightarrow> string" where
  "bullet_text s = bullet_glyph @ '' '' @ s"

definition newline :: string where
  "newline = [CHR 0x0A]"

fun join :: "string \<Rightarrow> string list \<Rightarrow> string" where
  "join sep [] = []"
| "join sep [x] = x"
| "join sep (x # y # ys) = x @ sep @ join sep (y # ys)"

fun split_on :: "char \<Rightarrow> string \<Rightarrow> string list" where
  "split_on c [] = [[]]"
| "split_on c (x # xs) =
     (if x = c then [] # split_on c xs
      else (case split_on c xs of [] \<Rightarrow> [[x]] | l # ls \<Rightarrow> (x # l) # ls))"

text \<open>The decimal digit of a number below ten.\<close>

definition digit_char :: "nat \<Rightarrow> char" where
  "digit_char n = ''0123456789'' ! (n mod 10)"

function str_nat :: "nat \<Rightarrow> string" where
  "str_nat n = (if n < 10 then [digit_char n] else str_nat (n div 10) @ [digit_char (n mod 10)])"
  by pat_completeness auto
termination
  by (relation "measure id") auto

text \<open>The format \<open>{n:4d}\<close>: decimal, right-aligned in four columns.\<close>

definition fmt4d :: "nat \<Rightarrow> string" where
  "fmt4d n = replicate (4 - length (str_nat n)) CHR '' '' @ str_nat n"

text \<open>The formats \<open>%m\<close>, \<open>%d\<close>, \<open>%H\<close>, \<open>%M\<close>, \<open>%S\<close> and \<open>%Y\<close> of \<open>strftime\<close>: decimals
  padded with zeros to two and to four digits.\<close>

definition zero_pad :: "nat \<Rightarrow> nat \<Rightarrow> string" where
  "zero_pad k n = replicate (k - length (str_nat n)) CHR ''0'' @ str_nat n"

text \<open>\<open>page.title or "<default>"\<close>.\<close>

fun or_default :: "string option \<Rightarrow> string \<Rightarrow> string" where
  "or_default None d = d"
| "or_default (Some s) d = (if s = [] then d else s)"

subsection \<open>Assets: \<open>_download_image\<close>, \<open>_render_mermaid_to_png\<close>, \<open>_add_image\<close>\<close>

text \<open>
  \<open>_download_image\<close>: the temporary file is created before the request is sent, and its
  path is recorded for cleanup only after the download succeeded. Every exception ends
  in \<open>None\<close>.
\<close>

definition download_image :: "env \<Rightarrow> world \<Rightarrow> string \<Rightarrow> string option \<times> world" where
  "download_image env w url =
     (let ext = (if url_ext env url = [] then ''.png'' else url_ext env url);
          temp_path = tmp_name env (tmp_count w) ext;
          w1 = w\<lparr>fs := insert temp_path (fs w), tmp_count := Suc (tmp_count w)\<rparr>
      in if urlopen_ok env url
         then (Some temp_path, w1\<lparr>downloaded_images := downloaded_images w1 @ [temp_path]\<rparr>)
         else (None, w1))"

text \<open>
  \<open>_render_mermaid_to_png\<close>: two temporary files, the input and the output; the input is
  unlinked once \<open>subprocess.run\<close> has returned; on a non-zero exit code the output is
  unlinked when it exists; on exit code 0 the output's path is recorded for cleanup. A
  timeout, a missing tool and every other exception (a failing \<open>os.unlink\<close> among them)
  end in \<open>None\<close>.
\<close>

definition render_mermaid_to_png :: "env \<Rightarrow> world \<Rightarrow> string \<Rightarrow> string option \<times> world" where
  "render_mermaid_to_png env w mermaid_src =
     (let temp_input = tmp_name env (tmp_count w) ''.mmd'';
          temp_output_path = tmp_name env (Suc (tmp_count w)) ''.png'';
          w1 = w\<lparr>fs := insert temp_output_path (insert temp_input (fs w)),
                 tmp_count := Suc (Suc (tmp_count w))\<rparr>
      in case mmdc env mermaid_src of
           TimeoutExpired \<Rightarrow> (None, w1)
         | FileNotFoundError \<Rightarrow> (None, w1)
         | OtherException \<Rightarrow> (None, w1)
         | Exited returncode \<Rightarrow>
             if \<not> can_unlink env temp_input then (None, w1)
             else
               (let w2 = w1\<lparr>fs := fs w1 - {temp_input}\<rparr>
                in if returncode \<noteq> 0 then
                     (if temp_output_path \<in> fs w2 then
                        (if can_unlink env temp_output_path
                         then (None, w2\<lparr>fs := fs w2 - {temp_output_path}\<rparr>)
                         else (None, w2))
                      else (None, w2))
                   else (Some temp_output_path,
                         w2\<lparr>downloaded_images := downloaded_images w2 @ [temp_output_path]\<rparr>)))"

text \<open>
  \<open>_add_image\<close> is one \<open>try\<close> block with a handler for every exception. The body of
  the block: an exception is given by its message \<open>str(e)\<close> and the world it leaves.
  Inside the block a paragraph that the backend rejects and an image that it cannot
  load raise.
\<close>

type_synonym tried = "(string \<times> world) + world"

definition try_para :: "env \<Rightarrow> string \<Rightarrow> style_role \<Rightarrow> world \<Rightarrow> tried" where
  "try_para env txt st w =
     (case paragraph_error env txt st of
        Some msg \<Rightarrow> Inl (msg, w)
      | None \<Rightarrow> Inr (story_append w [Paragraph txt st]))"

definition download_failed_msg :: "string \<Rightarrow> string" where
  "download_failed_msg img_path = ''[Failed to download image from: '' @ img_path @ '']''"

definition not_found_msg :: "string \<Rightarrow> string" where
  "not_found_msg img_path = ''[Image not found: '' @ img_path @ '']''"

definition error_loading_msg :: "string \<Rightarrow> string" where
  "error_loading_msg e = ''[Error loading image: '' @ e @ '']''"

text \<open>The part of the block after the download: existence check and embedding.\<close>

definition embed_image :: "env \<Rightarrow> string \<Rightarrow> string \<Rightarrow> string option \<Rightarrow> world \<Rightarrow> tried" where
  "embed_image env actual_path img_path cap w =
     (if actual_path \<in> fs w then
        (case image_error env actual_path of
           Some e \<Rightarrow> Inl (e, w)
         | None \<Rightarrow>
             (let w1 = story_append w [Image actual_path]
              in case cap of
                   None \<Rightarrow> Inr w1
                 | Some c \<Rightarrow>
                     if c = [] then Inr w1
                     else try_para env c S_caption (story_append w1 [Spacer 10])))
      else try_para env (not_found_msg img_path) S_body w)"

definition add_image_body :: "env \<Rightarrow> string \<Rightarrow> string option \<Rightarrow> world \<Rightarrow> tried" where
  "add_image_body env img_path cap w =
     (if is_url img_path then
        (case download_image env w img_path of
           (None, w1) \<Rightarrow> try_para env (download_failed_msg img_path) S_body w1
         | (Some downloaded_path, w1) \<Rightarrow>
             if downloaded_path = []
             then try_para env (download_failed_msg img_path) S_body w1
             else embed_image env downloaded_path img_path cap w1)
      else embed_image env img_path img_path cap w)"

text \<open>The handler appends a paragraph with the message of the exception; this
  paragraph is built outside the block, and an exception of its constructor leaves
  \<open>_add_image\<close>.\<close>

definition add_image :: "env \<Rightarrow> string \<Rightarrow> string option \<Rightarrow> step" where
  "add_image env img_path cap w =
     (case add_image_body env img_path cap w of
        Inr w' \<Rightarrow> Inr w'
      | Inl (e, w') \<Rightarrow> para env (error_loading_msg e) S_body w')"

text \<open>\<open>_cleanup_downloaded_images\<close>: each recorded path is unlinked when it exists; an
  exception of \<open>os.unlink\<close> is logged and the loop goes on; then the list is cleared.\<close>

fun cleanup_loop :: "env \<Rightarrow> string list \<Rightarrow> string set \<Rightarrow> string set" where
  "cleanup_loop env [] files = files"
| "cleanup_loop env (temp_path # rest) files =
     cleanup_loop env rest
       (if temp_path \<in> files then (if can_unlink env temp_path then files - {temp_path} else files)
        else files)"

definition cleanup_downloaded_images :: "env \<Rightarrow> world \<Rightarrow> world" where
  "cleanup_downloaded_images env w =
     w\<lparr>fs := cleanup_loop env (downloaded_images w) (fs w), downloaded_images := []\<rparr>"

subsection \<open>Blocks shared by the pages\<close>

text \<open>\<open>_add_code_block\<close>; the language is not used.\<close>

definition add_code_block :: "string \<Rightarrow> string option \<Rightarrow> bool \<Rightarrow> step list" where
  "add_code_block code_text lang numbered =
     (let lines = split_on CHR 0x0A code_text;
          numbered_code =
            join newline (map (\<lambda>(i, line). fmt4d (i + 1) @ ''  '' @ line)
                            (zip [0..<length lines] lines))
      in [emit (Preformatted (if numbered then numbered_code else code_text)),
          emit (Spacer 20)])"

definition add_table :: "env \<Rightarrow> string list list \<Rightarrow> string list option \<Rightarrow> step list" where
  "add_table env data headers =
     [table env (case headers of
                   None \<Rightarrow> data
                 | Some h \<Rightarrow> if h = [] then data else h # data),
      emit (Spacer 20)]"

text \<open>The description of a diagram or mermaid page: bullets for a list, one paragraph
  for a string.\<close>

fun description_truthy :: "description option \<Rightarrow> bool" where
  "description_truthy None = False"
| "description_truthy (Some (DescStr s)) = (s \<noteq> [])"
| "description_truthy (Some (DescList l)) = (l \<noteq> [])"

definition description_bullets :: "env \<Rightarrow> description option \<Rightarrow> step list" where
  "description_bullets env d =
     (if description_truthy d then
        emit (Spacer 20) #
        (case d of
           Some (DescList l) \<Rightarrow> map (\<lambda>desc. para env (bullet_text desc) S_bullet) l
         | Some (DescStr s) \<Rightarrow> [para env s S_body]
         | None \<Rightarrow> [])
      else [])"

text \<open>The description of an image page: one paragraph, a list joined with newlines.\<close>

definition description_joined :: "env \<Rightarrow> description option \<Rightarrow> step list" where
  "description_joined env d =
     (if description_truthy d then
        [emit (Spacer 20),
         para env (case d of
                     Some (DescStr s) \<Rightarrow> s
                   | Some (DescList l) \<Rightarrow> join newline l
                   | None \<Rightarrow> []) S_body]
      else [])"

definition add_content_item :: "env \<Rightarrow> ContentItem \<Rightarrow> step list" where
  "add_content_item env item =
     (if item_type item = ''text'' then
        if_given (item_text item) (\<lambda>t. [para env t S_body])
      else if item_type item = ''bullet'' then
        if_given (item_items item) (map (\<lambda>bullet. para env (bullet_text bullet) S_bullet))
      else if item_type item = ''image'' then
        if_given (py_or (item_image_path item) (item_image_url item))
          (\<lambda>p. [add_image env p (item_caption item)])
      else if item_type item = ''code'' then
        if_given (item_code item) (\<lambda>c. add_code_block c (item_language item) False)
      else if item_type item = ''table'' then
        if_given (item_table_data item) (\<lambda>d. add_table env d (item_table_headers item))
      else [])"

subsection \<open>The ten page composers\<close>

text \<open>
  Each composer is the list of its steps, in the order of the source. The title of a
  page is an optional string; the composers that hand it to the paragraph constructor
  as it is raise when it is \<open>None\<close>.
\<close>

definition add_title_page :: "env \<Rightarrow> PageSpec \<Rightarrow> step" where
  "add_title_page env page =
     run ([emit (Spacer 200), para_opt env (title page) S_title]
          @ if_given (subtitle page) (\<lambda>s. [para env s S_subtitle, emit (Spacer 30)])
          @ if_given (author page) (\<lambda>s. [para env s S_body])
          @ if_given (date page) (\<lambda>s. [para env s S_body])
          @ if_given (additional_info page) (\<lambda>s. [emit (Spacer 50), para env s S_body])
          @ [emit PageBreak])"

definition add_toc_page :: "env \<Rightarrow> PageSpec \<Rightarrow> step" where
  "add_toc_page env page =
     run ([para env (or_default (title page) ''Table of Contents'') S_h1, emit (Spacer 20)]
          @ if_given (entries page) (map (\<lambda>entry. para env entry S_bullet))
          @ [emit PageBreak])"

definition add_section_page :: "env \<Rightarrow> PageSpec \<Rightarrow> step" where
  "add_section_page env page =
     run ([emit (Spacer 250), para_opt env (title page) S_title]
          @ if_given (subtitle page) (\<lambda>s. [para env s S_subtitle])
          @ [emit PageBreak])"

definition add_content_page :: "env \<Rightarrow> PageSpec \<Rightarrow> step" where
  "add_content_page env page =
     run ([para_opt env (title page) S_h1, emit (Spacer 20)]
          @ if_given (content page) (\<lambda>items. concat (map (add_content_item env) items))
          @ [emit PageBreak])"

definition add_code_page :: "env \<Rightarrow> PageSpec \<Rightarrow> step" where
  "add_code_page env page =
     run ([para_opt env (title page) S_h1, emit (Spacer 20)]
          @ if_given (code page) (\<lambda>c. add_code_block c (language page) (line_numbers page))
          @ [emit PageBreak])"

definition add_diagram_page :: "env \<Rightarrow> PageSpec \<Rightarrow> step" where
  "add_diagram_page env page =
     run ([para_opt env (title page) S_h1, emit (Spacer 20)]
          @ if_given (py_or (diagram_path page) (diagram_url page))
              (\<lambda>p. [add_image env p (caption page)])
          @ description_bullets env (description page)
          @ [emit PageBreak])"

definition add_image_page :: "env \<Rightarrow> PageSpec \<Rightarrow> step" where
  "add_image_page env page =
     run ([para_opt env (title page) S_h1, emit (Spacer 20)]
          @ if_given (py_or (image_path page) (image_url page))
              (\<lambda>p. [add_image env p (caption page)])
          @ description_joined env (description page)
          @ [emit PageBreak])"

definition mermaid_error_msg :: string where
  "mermaid_error_msg =
     ''[Failed to render Mermaid diagram. Please ensure @mermaid-js/mermaid-cli is installed]''"

text \<open>The body of \<open>if page.mermaid_code:\<close>: render, then embed the raster or report.\<close>

definition mermaid_step :: "env \<Rightarrow> PageSpec \<Rightarrow> string \<Rightarrow> step" where
  "mermaid_step env page src w =
     (case render_mermaid_to_png env w src of
        (None, w') \<Rightarrow> para env mermaid_error_msg S_body w'
      | (Some png_path, w') \<Rightarrow>
          if png_path = [] then para env mermaid_error_msg S_body w'
          else add_image env png_path (caption page) w')"

definition add_mermaid_page :: "env \<Rightarrow> PageSpec \<Rightarrow> step" where
  "add_mermaid_page env page =
     run ([para_opt env (title page) S_h1, emit (Spacer 20)]
          @ if_given (mermaid_code page) (\<lambda>src. [mermaid_step env page src])
          @ description_bullets env (description page)
          @ [emit PageBreak])"

definition add_summary_page :: "env \<Rightarrow> PageSpec \<Rightarrow> step" where
  "add_summary_page env page =
     run ([para env (or_default (title page) ''Summary'') S_h1, emit (Spacer 20)]
          @ if_given (key_points page) (map (\<lambda>point. para env (bullet_text point) S_bullet))
          @ if_given (conclusion page) (\<lambda>c. [emit (Spacer 30), para env c S_body])
          @ [emit PageBreak])"

definition reference_paragraph :: "env \<Rightarrow> string \<Rightarrow> nat \<times> string \<Rightarrow> step" where
  "reference_paragraph env sty ir =
     (case ir of (i, ref) \<Rightarrow>
        if sty = ''numbered'' then para env (str_nat i @ ''. '' @ ref) S_body
        else if sty = ''bulleted'' then para env (bullet_text ref) S_bullet
        else para env ref S_body)"

definition add_references_page :: "env \<Rightarrow> PageSpec \<Rightarrow> step" where
  "add_references_page env page =
     run ([para env (or_default (title page) ''References'') S_h1, emit (Spacer 20)]
          @ if_given (references page)
              (\<lambda>refs. map (reference_paragraph env (style page))
                         (zip [1..<Suc (length refs)] refs))
          @ [emit PageBreak])"

text \<open>
  \<open>_generate_page\<close>. The page type is a member of the enumeration, so the final branch
  of the source (\<open>ValueError\<close> for an unknown page type) has no case here.
\<close>

definition generate_page :: "env \<Rightarrow> PageSpec \<Rightarrow> step" where
  "generate_page env page =
     (case page_type page of
        TITLE \<Rightarrow> add_title_page env page
      | TOC \<Rightarrow> add_toc_page env page
      | SECTION \<Rightarrow> add_section_page env page
      | CONTENT \<Rightarrow> add_content_page env page
      | CODE \<Rightarrow> add_code_page env page
      | DIAGRAM \<Rightarrow> add_diagram_page env page
      | IMAGE \<Rightarrow> add_image_page env page
      | MERMAID \<Rightarrow> add_mermaid_page env page
      | SUMMARY \<Rightarrow> add_summary_page env page
      | REFERENCES \<Rightarrow> add_references_page env page)"

text \<open>The loop over the pages of \<open>generate_pdf\<close>, with its counter: an exception of a
  page is logged and raised again.\<close>

fun generate_pages :: "env \<Rightarrow> world \<Rightarrow> nat \<Rightarrow> PageSpec list \<Rightarrow> (error \<times> world) + (nat \<times> world)" where
  "generate_pages env w pages_generated [] = Inr (pages_generated, w)"
| "generate_pages env w pages_generated (page # rest) =
     (case generate_page env page w of
        Inl ew \<Rightarrow> Inl ew
      | Inr w' \<Rightarrow> generate_pages env w' (Suc pages_generated) rest)"

subsection \<open>\<open>generate_pdf\<close>: styles, output location, file name, pages, build, cleanup\<close>

text \<open>
  \<open>_setup_styles\<close> reads three colours of the theme with \<open>HexColor\<close>, the primary, the
  secondary and the text colour, in this order of first use; the first that cannot be
  read raises. The styles themselves are present as the roles of \<open>style_role\<close>.
\<close>

definition setup_styles :: "env \<Rightarrow> ThemeSpec \<Rightarrow> error option" where
  "setup_styles env th =
     (case hexcolor_error env (primary (colors th)) of
        Some msg \<Rightarrow> Some (ValueError msg)
      | None \<Rightarrow>
          (case hexcolor_error env (secondary (colors th)) of
             Some msg \<Rightarrow> Some (ValueError msg)
           | None \<Rightarrow>
               (case hexcolor_error env (text_color (colors th)) of
                  Some msg \<Rightarrow> Some (ValueError msg)
                | None \<Rightarrow> None)))"

text \<open>\<open>Path(os.getenv('OUTPUT_DIR', str(Path.home() / 'pdf-output')))\<close>.\<close>

definition fallback_dir :: "env \<Rightarrow> pystr" where
  "fallback_dir env =
     path_of env (case OUTPUT_DIR env of
                    Some d \<Rightarrow> d
                  | None \<Rightarrow> joinpath env (home env) (ustr ''pdf-output''))"

text \<open>
  How a \<open>try\<close> block over a directory ends: it runs to its end, it is left by an
  \<open>OSError\<close>, which its handler catches, or it is left by another exception, which the
  handler \<open>except (OSError, PermissionError)\<close> does not catch. The operating system
  raises \<open>ValueError\<close>, not \<open>OSError\<close>, for a path that holds a NUL character:
  \<open>Path.exists\<close> answers \<open>False\<close> for such a path and \<open>Path.mkdir\<close> raises.
\<close>

datatype attempt = Completed | Caught | Escaped error

definition has_nul :: "pystr \<Rightarrow> bool" where
  "has_nul p = (0 \<in> set p)"

definition embedded_null :: error where
  "embedded_null = ValueError ''embedded null byte''"

text \<open>
  The first \<open>try\<close> block: create the requested directory when it does not exist, then
  touch and unlink the sentinel file.
\<close>

definition try_requested :: "env \<Rightarrow> pystr \<Rightarrow> attempt" where
  "try_requested env requested_dir =
     (let test_file = joinpath env requested_dir (ustr ''.write_test'')
      in if has_nul requested_dir then Escaped embedded_null
         else if \<not> dir_exists env requested_dir \<and> \<not> mkdir_ok env requested_dir then Caught
         else if \<not> touch_ok env test_file then Caught
         else if \<not> probe_unlink_ok env test_file then Caught
         else Completed)"

text \<open>The second \<open>try\<close> block: create the fallback directory when it does not exist.\<close>

definition try_fallback :: "env \<Rightarrow> pystr \<Rightarrow> attempt" where
  "try_fallback env fb =
     (if has_nul fb then Escaped embedded_null
      else if \<not> fb_exists env fb \<and> \<not> fb_mkdir_ok env fb then Caught
      else Completed)"

definition fallback_note :: "pystr \<Rightarrow> pystr \<Rightarrow> pystr" where
  "fallback_note fb requested_dir =
     ustr ''Note: Saved to '' @ fb @ ustr '' (requested directory '' @ requested_dir
       @ ustr '' was not accessible)''"

definition cannot_write_msg :: "pystr \<Rightarrow> pystr \<Rightarrow> pystr" where
  "cannot_write_msg requested_dir fb =
     ustr ''Cannot write to requested directory '' @ ustr [CHR 0x27] @ requested_dir
       @ ustr [CHR 0x27] @ ustr '' or fallback directory '' @ ustr [CHR 0x27] @ fb
       @ ustr [CHR 0x27] @ ustr ''. Please check permissions and configuration.''"

text \<open>The output directory and the \<open>directory_message\<close>, or the exception, for the
  requested directory \<open>Path(doc_spec.output.directory)\<close>.\<close>

definition resolve_output_dir :: "env \<Rightarrow> pystr \<Rightarrow> error + (pystr \<times> pystr option)" where
  "resolve_output_dir env requested_dir =
     (case try_requested env requested_dir of
        Completed \<Rightarrow> Inr (requested_dir, None)
      | Escaped e \<Rightarrow> Inl e
      | Caught \<Rightarrow>
          (let fb = fallback_dir env
           in case try_fallback env fb of
                Completed \<Rightarrow> Inr (fb, Some (fallback_note fb requested_dir))
              | Caught \<Rightarrow> Inl (RuntimeError (cannot_write_msg requested_dir fb))
              | Escaped e \<Rightarrow> Inl e))"

text \<open>\<open>strftime("%Y%m%d_%H%M%S")\<close>.\<close>

definition strftime :: "datetime \<Rightarrow> string" where
  "strftime t =
     zero_pad 4 (year t) @ zero_pad 2 (month t) @ zero_pad 2 (day t) @ ''_''
       @ zero_pad 2 (hour t) @ zero_pad 2 (minute t) @ zero_pad 2 (second t)"

text \<open>\<open>c if c.isalnum() or c in (' ', '-', '_') else '_'\<close>, for one character of the
  title.\<close>

definition safe_char :: "env \<Rightarrow> codepoint \<Rightarrow> codepoint" where
  "safe_char env c = (if isalnum env c \<or> c \<in> set (ustr '' -_'') then c else of_char CHR ''_'')"

text \<open>\<open>safe_title.replace(' ', '_')\<close>.\<close>

definition replace_spaces :: "pystr \<Rightarrow> pystr" where
  "replace_spaces s = map (\<lambda>c. if c = of_char CHR '' '' then of_char CHR ''_'' else c) s"

definition auto_filename :: "env \<Rightarrow> pystr \<Rightarrow> pystr" where
  "auto_filename env ttl =
     (let safe_title = map (safe_char env) ttl;
          safe_title' = lower env (replace_spaces safe_title);
          timestamp = strftime (now env)
      in safe_title' @ ustr ''_'' @ ustr timestamp @ ustr ''.pdf'')"

definition generate_filename :: "env \<Rightarrow> DocumentSpec \<Rightarrow> pystr" where
  "generate_filename env doc_spec =
     (case filename (doc_output doc_spec) of
        None \<Rightarrow> auto_filename env (doc_title doc_spec)
      | Some f \<Rightarrow> if f = [] then auto_filename env (doc_title doc_spec) else f)"

text \<open>The dictionary \<open>generate_pdf\<close> returns; the key \<open>message\<close> may be missing.\<close>

record result =
  ok :: bool
  res_output :: pystr
  pages_generated :: nat
  res_filename :: pystr
  message :: "pystr option"

text \<open>
  \<open>generate_pdf\<close>. \<open>doc.build\<close> takes the flowables out of the list it is given, so
  the story is empty after a build that returns. Logging is left out.
\<close>

definition generate_pdf :: "env \<Rightarrow> world \<Rightarrow> DocumentSpec \<Rightarrow> (error \<times> world) + (result \<times> world)" where
  "generate_pdf env w doc_spec =
     (case setup_styles env (theme doc_spec) of
        Some e \<Rightarrow> Inl (e, w)
      | None \<Rightarrow>
     (case resolve_output_dir env (path_of env (directory (doc_output doc_spec))) of
        Inl e \<Rightarrow> Inl (e, w)
      | Inr (output_dir, directory_message) \<Rightarrow>
          (let fname = generate_filename env doc_spec;
               output_path = joinpath env output_dir fname;
               w0 = w\<lparr>story := []\<rparr>
           in case generate_pages env w0 0 (pages doc_spec) of
                Inl ew \<Rightarrow> Inl ew
              | Inr (n, w1) \<Rightarrow>
                  if \<not> build_ok env output_path (story w1) (fs w1)
                  then Inl (BuildException,
                            w1\<lparr>story := build_rest env output_path (story w1) (fs w1)\<rparr>)
                  else
                    (let w2 = cleanup_downloaded_images env (w1\<lparr>story := []\<rparr>)
                     in Inr (\<lparr>ok = True, res_output = output_path, pages_generated = n,
                               res_filename = fname,
                               message = (if truthy directory_message then directory_message
                                          else None)\<rparr>,
                             w2)))))"

subsection \<open>The validator \<open>PageSpec.handle_image_field\<close>\<close>

text \<open>
  The validator runs before validation, on the raw dictionary: its values are any Python
  values. A member of \<open>PageType\<close> is a string as well; it compares and tests as its value.
\<close>

datatype pyval =
  PyStr string | PyPageType PageType | PyNone | PyBool bool | PyInt int | PyList "pyval list"

text \<open>\<open>isinstance(image_value, str) and image_value.startswith(('http://', 'https://'))\<close>.\<close>

fun is_url_value :: "pyval \<Rightarrow> bool" where
  "is_url_value (PyStr s) = is_url s"
| "is_url_value (PyPageType t) = is_url (page_type_value t)"
| "is_url_value v = False"

text \<open>\<open>page_type == 'diagram' or page_type == PageType.DIAGRAM\<close>, on the value of
  \<open>values.get('page_type')\<close>.\<close>

fun is_diagram :: "pyval option \<Rightarrow> bool" where
  "is_diagram (Some (PyStr s)) = (s = ''diagram'')"
| "is_diagram (Some (PyPageType t)) = (t = DIAGRAM)"
| "is_diagram v = False"

definition handle_image_field :: "(string \<rightharpoonup> pyval) \<Rightarrow> (string \<rightharpoonup> pyval)" where
  "handle_image_field values =
     (case values ''image'' of
        None \<Rightarrow> values
      | Some image_value \<Rightarrow>
          (let values' = values(''image'' := None);
               ptype = values' ''page_type'';
               url = is_url_value image_value
           in if is_diagram ptype then
                (if url then values'(''diagram_url'' \<mapsto> image_value)
                 else values'(''diagram_path'' \<mapsto> image_value))
              else
                (if url then values'(''image_url'' \<mapsto> image_value)
                 else values'(''image_path'' \<mapsto> image_value))))"

text \<open>The field the shorthand is written to.\<close>

definition image_target :: "(string \<rightharpoonup> pyval) \<Rightarrow> pyval \<Rightarrow> string" where
  "image_target values v =
     (if is_diagram (values ''page_type'')
      then (if is_url_value v then ''diagram_url'' else ''diagram_path'')
      else (if is_url_value v then ''image_url'' else ''image_path''))"

section \<open>Concrete surroundings and documents, for evaluation\<close>

text \<open>
  The values of \<open>str.isalnum\<close> and \<open>str.lower\<close> on ASCII and on the letters U+00C9 and
  U+00E9 (E and e with an acute accent); other code points are taken as not
  alphanumeric and as their own lower case.
\<close>

definition example_isalnum :: "codepoint \<Rightarrow> bool" where
  "example_isalnum n =
     ((48 \<le> n \<and> n \<le> 57) \<or> (65 \<le> n \<and> n \<le> 90) \<or> (97 \<le> n \<and> n \<le> 122)
      \<or> n = 0xC9 \<or> n = 0xE9)"

definition example_lower :: "codepoint \<Rightarrow> codepoint" where
  "example_lower n = (if (65 \<le> n \<and> n \<le> 90) \<or> n = 0xC9 then n + 32 else n)"

text \<open>
  A machine on which \<open>/out\<close> exists and is writable, nothing else can be created but
  the fallback \<open>/fallback\<close>, paths are in normal form as they are, every download
  succeeds, the diagram renderer exits with code 1, the backend rejects the texts that
  hold the character \<open><\<close> and nothing else, and the document builds.
\<close>

definition env0 :: env where
  "env0 =
     \<lparr>path_of = (\<lambda>p. p),
      joinpath = (\<lambda>d f. d @ ustr ''/'' @ f),
      dir_exists = (\<lambda>d. d = ustr ''/out''),
      mkdir_ok = (\<lambda>d. False),
      touch_ok = (\<lambda>f. True),
      probe_unlink_ok = (\<lambda>f. True),
      fb_exists = (\<lambda>d. False),
      fb_mkdir_ok = (\<lambda>d. d = ustr ''/fallback''),
      OUTPUT_DIR = Some (ustr ''/fallback''),
      home = ustr ''/home/user'',
      isalnum = example_isalnum,
      lower = map example_lower,
      now = \<lparr>year = 2025, month = 1, day = 2, hour = 3, minute = 4, second = 5,
              microsecond = 678\<rparr>,
      hexcolor_error = (\<lambda>c. None),
      paragraph_error =
        (\<lambda>s st. if CHR ''<'' \<in> set s then Some (''Parse error: '' @ s) else None),
      table_error = (\<lambda>rows. None),
      image_error = (\<lambda>f. None),
      build_ok = (\<lambda>f s files. True),
      build_rest = (\<lambda>f s files. []),
      tmp_name = (\<lambda>n suffix. ''/tmp/tmp'' @ replicate n CHR ''x'' @ suffix),
      url_ext = (\<lambda>u. []),
      urlopen_ok = (\<lambda>u. True),
      mmdc = (\<lambda>src. Exited 1),
      can_unlink = (\<lambda>f. True)\<rparr>"

definition world0 :: world where
  "world0 = \<lparr>story = [], downloaded_images = [], fs = {}, tmp_count = 0\<rparr>"

text \<open>A page of the given type with no other field set.\<close>

definition blank_page :: "PageType \<Rightarrow> PageSpec" where
  "blank_page t =
     \<lparr>page_type = t, title = None, subtitle = None, author = None, date = None,
      additional_info = None, entries = None, content = None, code = None, language = None,
      line_numbers = False, image_path = None, image_url = None, diagram_path = None,
      diagram_url = None, caption = None, description = None, mermaid_code = None,
      key_points = None, conclusion = None, references = None, style = ''numbered''\<rparr>"

text \<open>A document with the default theme: title, file name, directory, pages.\<close>

definition doc_of :: "string \<Rightarrow> string option \<Rightarrow> string \<Rightarrow> PageSpec list \<Rightarrow> DocumentSpec" where
  "doc_of ttl fname dir ps =
     \<lparr>doc_title = ustr ttl, theme = resolve_theme no_theme, pages = ps,
      doc_output = \<lparr>filename = map_option ustr fname, directory = ustr dir\<rparr>\<rparr>"

definition untitled_doc :: DocumentSpec where
  "untitled_doc = doc_of ''T'' None ''/out'' [blank_page TITLE]"

definition remote_image_page :: PageSpec where
  "remote_image_page =
     (blank_page IMAGE)\<lparr>title := Some ''Logo'', image_url := Some ''http://h/a''\<rparr>"

definition failing_mermaid_page :: PageSpec where
  "failing_mermaid_page =
     (blank_page MERMAID)\<lparr>title := Some ''Flow'', mermaid_code := Some ''graph''\<rparr>"

definition leaking_doc :: DocumentSpec where
  "leaking_doc = doc_of ''T'' (Some ''x.pdf'') ''/out'' [remote_image_page, blank_page TITLE]"

definition two_page_doc :: DocumentSpec where
  "two_page_doc =
     doc_of ''T'' (Some ''x.pdf'') ''/nowhere'' [remote_image_page, failing_mermaid_page]"

text \<open>The story the run on \<open>two_page_doc\<close> hands to the backend, the world in which it
  does, what the run returns, and the world it leaves.\<close>

definition two_page_story :: "flowable list" where
  "two_page_story =
     [Paragraph ''Logo'' S_h1, Spacer 20, Image ''/tmp/tmp.png'', PageBreak,
      Paragraph ''Flow'' S_h1, Spacer 20, Paragraph mermaid_error_msg S_body, PageBreak]"

definition two_page_built :: world where
  "two_page_built =
     \<lparr>story = two_page_story, downloaded_images = [''/tmp/tmp.png''],
      fs = {''/tmp/tmp.png''}, tmp_count = 3\<rparr>"

definition two_page_result :: result where
  "two_page_result =
     \<lparr>ok = True, res_output = ustr ''/fallback/x.pdf'', pages_generated = 2,
      res_filename = ustr ''x.pdf'',
      message = Some (ustr ''Note: Saved to /fallback (requested directory /nowhere was not accessible)'')\<rparr>"

definition two_page_world :: world where
  "two_page_world = \<lparr>story = [], downloaded_images = [], fs = {}, tmp_count = 3\<rparr>"



text \<open>Raw page dictionaries that carry the \<open>image\<close> shorthand; the last sets the sibling
  field as well.\<close>

definition diagram_shorthand :: "string \<rightharpoonup> pyval" where
  "diagram_shorthand =
     [''page_type'' \<mapsto> PyStr ''diagram'', ''title'' \<mapsto> PyStr ''D'',
      ''image'' \<mapsto> PyStr ''https://example.com/d.png'']"

definition image_shorthand :: "string \<rightharpoonup> pyval" where
  "image_shorthand =
     [''page_type'' \<mapsto> PyPageType IMAGE, ''title'' \<mapsto> PyStr ''I'',
      ''image'' \<mapsto> PyStr ''pics/local.png'']"

definition both_shorthand :: "string \<rightharpoonup> pyval" where
  "both_shorthand =
     [''page_type'' \<mapsto> PyStr ''diagram'', ''title'' \<mapsto> PyStr ''D'',
      ''diagram_path'' \<mapsto> PyStr ''local.png'',
      ''image'' \<mapsto> PyStr ''https://example.com/d.png'']"





text \<open>A mermaid page whose diagram source is the empty string.\<close>

definition empty_mermaid_page :: PageSpec where
  "empty_mermaid_page = (blank_page MERMAID)\<lparr>title := Some ''Flow'', mermaid_code := Some []\<rparr>"


section \<open>Notions used in the statements\<close>

text \<open>
  A step inside a page \<^emph>\<open>extends\<close> the world: it appends flowables that are not page
  breaks to the story, and it appends paths to the cleanup list (it removes none).
\<close>

definition extends :: "world \<Rightarrow> world \<Rightarrow> bool" where
  "extends w w' =
     ((\<exists>xs. story w' = story w @ xs \<and> PageBreak \<notin> set xs)
      \<and> (\<exists>new. downloaded_images w' = downloaded_images w @ new))"

text \<open>A step is \<^emph>\<open>quiet\<close> when it extends the world whenever it returns.\<close>

definition quiet :: "step \<Rightarrow> bool" where
  "quiet s = (\<forall>w w'. s w = Inr w' \<longrightarrow> extends w w')"

text \<open>A whole page does the same and then appends one page break.\<close>

definition ends_page :: "world \<Rightarrow> world \<Rightarrow> bool" where
  "ends_page w w' =
     ((\<exists>xs. story w' = story w @ xs @ [PageBreak] \<and> PageBreak \<notin> set xs)
      \<and> (\<exists>new. downloaded_images w' = downloaded_images w @ new))"

text \<open>The flowables of one page: they end with a page break and hold no other.\<close>

definition page_group :: "flowable list \<Rightarrow> bool" where
  "page_group g = (g \<noteq> [] \<and> last g = PageBreak \<and> count_list g PageBreak = 1)"

text \<open>
  The groups of a run: for each page in turn, what its composer appends to the story in
  the world the pages before it have left.
\<close>

fun page_groups :: "env \<Rightarrow> world \<Rightarrow> PageSpec list \<Rightarrow> flowable list list" where
  "page_groups env w [] = []"
| "page_groups env w (page # rest) =
     (case generate_page env page w of
        Inl ew \<Rightarrow> []
      | Inr w' \<Rightarrow> drop (length (story w)) (story w') # page_groups env w' rest)"

text \<open>The backend accepts a text as a paragraph, and the paragraphs of a list of
  flowables.\<close>

definition accepts :: "env \<Rightarrow> string \<Rightarrow> style_role \<Rightarrow> bool" where
  "accepts env txt st = (paragraph_error env txt st = None)"

fun accepted :: "env \<Rightarrow> flowable list \<Rightarrow> bool" where
  "accepted env [] = True"
| "accepted env (Paragraph txt st # xs) = (accepts env txt st \<and> accepted env xs)"
| "accepted env (x # xs) = accepted env xs"

text \<open>What a description becomes on a diagram or mermaid page, and on an image page,
  when the backend accepts its paragraphs.\<close>

definition bullets_of :: "description option \<Rightarrow> flowable list" where
  "bullets_of d =
     (if description_truthy d then
        Spacer 20 #
        (case d of
           Some (DescList l) \<Rightarrow> map (\<lambda>desc. Paragraph (bullet_text desc) S_bullet) l
         | Some (DescStr s) \<Rightarrow> [Paragraph s S_body]
         | None \<Rightarrow> [])
      else [])"






text \<open>The other field of the pair a field of the shorthand belongs to.\<close>

definition sibling_of :: "string \<Rightarrow> string" where
  "sibling_of k =
     (if k = ''diagram_url'' then ''diagram_path''
      else if k = ''diagram_path'' then ''diagram_url''
      else if k = ''image_url'' then ''image_path''
      else ''image_url'')"

text \<open>The theme with every field at the default its \<open>Field\<close> declaration documents.\<close>

definition default_theme :: ThemeSpec where
  "default_theme =
     \<lparr>colors = \<lparr>primary = ''#E3342F'', secondary = ''#1CCBD0'', accent = ''#F59E0B'',
                background = ''#FFFFFF'', text_color = ''#111827'', code_bg = ''#F5F5F5''\<rparr>,
      fonts = \<lparr>heading = ''Helvetica-Bold'', body = ''Helvetica'', code_font = ''Courier''\<rparr>,
      logo_path = None,
      title_font_size = 24, subtitle_font_size = 16, h1_font_size = 18, h2_font_size = 14,
      h3_font_size = 12, body_font_size = 10, code_font_size = 9,
      line_spacing = 1.2, paragraph_spacing = 6,
      page_width = 612, page_height = 792,
      margin_top = 72, margin_bottom = 72, margin_left = 72, margin_right = 72\<rparr>"

section \<open>Properties\<close>

subsection \<open>Evaluation of the concrete surroundings\<close>

lemma env0_fields:
  "path_of env0 p = p"
  "joinpath env0 d f = d @ ustr ''/'' @ f"
  "dir_exists env0 d = (d = ustr ''/out'')"
  "mkdir_ok env0 d = False"
  "touch_ok env0 f = True"
  "probe_unlink_ok env0 f = True"
  "fb_exists env0 d = False"
  "fb_mkdir_ok env0 d = (d = ustr ''/fallback'')"
  "OUTPUT_DIR env0 = Some (ustr ''/fallback'')"
  "isalnum env0 = example_isalnum"
  "lower env0 = map example_lower"
  "now env0 = \<lparr>year = 2025, month = 1, day = 2, hour = 3, minute = 4, second = 5,
                microsecond = 678\<rparr>"
  "hexcolor_error env0 c = None"
  "paragraph_error env0 s sty = (if CHR ''<'' \<in> set s then Some (''Parse error: '' @ s) else None)"
  "table_error env0 rows = None"
  "image_error env0 img = None"
  "build_ok env0 out st files = True"
  "tmp_name env0 n suffix = ''/tmp/tmp'' @ replicate n CHR ''x'' @ suffix"
  "url_ext env0 u = []"
  "urlopen_ok env0 u = True"
  "mmdc env0 src = Exited 1"
  "can_unlink env0 tmp = True"
  by (simp_all add: env0_def)

lemmas run_defs =
  generate_pdf_def doc_of_def setup_styles_def resolve_output_dir_def try_requested_def
  try_fallback_def has_nul_def fallback_dir_def generate_filename_def generate_page_def
  env0_fields world0_def blank_page_def Let_def ustr_def
  add_title_page_def add_image_page_def add_mermaid_page_def mermaid_step_def
  emit_def para_def para_opt_def try_para_def
  story_append_def add_image_def add_image_body_def embed_image_def download_image_def
  render_mermaid_to_png_def
  is_url_def startswith_def py_or_def description_joined_def description_bullets_def
  cleanup_downloaded_images_def fallback_note_def mermaid_error_msg_def

lemma two_page_pages:
  "generate_pages env0 (world0\<lparr>story := []\<rparr>) 0 (pages two_page_doc) = Inr (2, two_page_built)"
  by (auto simp add: two_page_doc_def remote_image_page_def failing_mermaid_page_def
        two_page_built_def two_page_story_def run_defs numeral_2_eq_2 numeral_3_eq_3)

lemma two_page_run:
  "generate_pdf env0 world0 two_page_doc = Inr (two_page_result, two_page_world)"
  by (auto simp add: two_page_doc_def remote_image_page_def failing_mermaid_page_def
        two_page_result_def two_page_world_def run_defs)

subsection \<open>Steps\<close>

lemma extends_refl: "extends w w"
  by (simp add: extends_def)

lemma extends_trans:
  "extends w w' \<Longrightarrow> extends w' w'' \<Longrightarrow> extends w w''"
  by (auto simp: extends_def)

lemma extends_append:
  "PageBreak \<notin> set xs \<Longrightarrow> extends w (story_append w xs)"
  by (auto simp: extends_def story_append_def)

lemma quietI: "(\<And>w w'. s w = Inr w' \<Longrightarrow> extends w w') \<Longrightarrow> quiet s"
  by (simp add: quiet_def)

lemma quietD: "quiet s \<Longrightarrow> s w = Inr w' \<Longrightarrow> extends w w'"
  by (simp add: quiet_def)

lemma emit_quiet: "x \<noteq> PageBreak \<Longrightarrow> quiet (emit x)"
  by (rule quietI) (auto simp: emit_def intro!: extends_append)

lemma para_quiet: "quiet (para env txt st)"
  by (rule quietI) (auto simp: para_def intro!: extends_append split: option.splits)

lemma para_opt_quiet: "quiet (para_opt env t st)"
  by (rule quietI) (auto simp: para_opt_def dest: quietD [OF para_quiet] split: option.splits)

lemma table_quiet: "quiet (table env rows)"
  by (rule quietI) (auto simp: table_def intro!: extends_append split: option.splits)

lemma run_append:
  "run (xs @ ys) w = (case run xs w of Inl ew \<Rightarrow> Inl ew | Inr w' \<Rightarrow> run ys w')"
  by (induction xs arbitrary: w) (auto split: sum.splits)

lemma run_quiet: "\<forall>s \<in> set ss. quiet s \<Longrightarrow> run ss w = Inr w' \<Longrightarrow> extends w w'"
proof (induction ss arbitrary: w)
  case Nil
  then show ?case by (simp add: extends_refl)
next
  case (Cons s ss)
  from Cons.prems(2) obtain v where v: "s w = Inr v" and rest: "run ss v = Inr w'"
    by (auto split: sum.splits)
  from Cons.prems(1) v have "extends w v" by (auto dest: quietD)
  moreover from Cons.prems(1) rest have "extends v w'" by (auto intro: Cons.IH)
  ultimately show ?case by (rule extends_trans)
qed

lemma page_ends:
  assumes "\<forall>s \<in> set ss. quiet s" and "run (ss @ [emit PageBreak]) w = Inr w'"
  shows "ends_page w w'"
proof -
  from assms(2) obtain v where v: "run ss w = Inr v" and w': "w' = story_append v [PageBreak]"
    by (auto simp: run_append emit_def split: sum.splits)
  from run_quiet [OF assms(1) v] show ?thesis
    unfolding w' by (auto simp: extends_def ends_page_def story_append_def)
qed

subsection \<open>Assets\<close>

lemma download_image_extends: "extends w (snd (download_image env w u))"
  by (simp add: download_image_def Let_def extends_def)

lemma render_mermaid_extends: "extends w (snd (render_mermaid_to_png env w src))"
  by (simp add: render_mermaid_to_png_def Let_def extends_def split: mmdc_outcome.splits)

lemma try_para_extends:
  "try_para env txt st w = Inr w' \<Longrightarrow> extends w w'"
  "try_para env txt st w = Inl (e, w') \<Longrightarrow> extends w w'"
  by (auto simp: try_para_def extends_refl intro!: extends_append split: option.splits)

lemma embed_image_extends:
  "embed_image env a p c w = Inr w' \<Longrightarrow> extends w w'"
  "embed_image env a p c w = Inl (e, w') \<Longrightarrow> extends w w'"
  by (auto simp: embed_image_def Let_def try_para_def extends_def story_append_def
        split: option.splits if_splits)

lemma add_image_body_extends:
  "add_image_body env p c w = Inr w' \<Longrightarrow> extends w w'"
  "add_image_body env p c w = Inl (e, w') \<Longrightarrow> extends w w'"
proof -
  obtain r w1 where d: "download_image env w p = (r, w1)" by (cases "download_image env w p")
  then have step: "extends w w1" using download_image_extends [of w env p] by simp
  show "add_image_body env p c w = Inr w' \<Longrightarrow> extends w w'"
    using d step
    by (auto simp: add_image_body_def split: if_splits option.splits
          dest: try_para_extends embed_image_extends intro: extends_trans)
  show "add_image_body env p c w = Inl (e, w') \<Longrightarrow> extends w w'"
    using d step
    by (auto simp: add_image_body_def split: if_splits option.splits
          dest: try_para_extends embed_image_extends intro: extends_trans)
qed

lemma add_image_quiet: "quiet (add_image env p c)"
proof (rule quietI)
  fix w w' assume a: "add_image env p c w = Inr w'"
  show "extends w w'"
  proof (cases "add_image_body env p c w")
    case (Inr v)
    with a show ?thesis by (simp add: add_image_def add_image_body_extends)
  next
    case (Inl ev)
    obtain e v where ev: "ev = (e, v)" by (cases ev)
    with Inl have "extends w v" by (simp add: add_image_body_extends)
    moreover from a Inl ev have "para env (error_loading_msg e) S_body v = Inr w'"
      by (simp add: add_image_def)
    then have "extends v w'" by (rule quietD [OF para_quiet])
    ultimately show ?thesis by (rule extends_trans)
  qed
qed

lemma mermaid_step_quiet: "quiet (mermaid_step env page src)"
proof (rule quietI)
  fix w w' assume a: "mermaid_step env page src w = Inr w'"
  obtain r v where r: "render_mermaid_to_png env w src = (r, v)"
    by (cases "render_mermaid_to_png env w src")
  then have "extends w v" using render_mermaid_extends [of w env src] by simp
  moreover have "extends v w'"
    using a r
    by (auto simp: mermaid_step_def split: option.splits if_splits
          dest: quietD [OF para_quiet] quietD [OF add_image_quiet])
  ultimately show "extends w w'" by (rule extends_trans)
qed

subsection \<open>Every page ends with its one page break\<close>

lemma in_if_given:
  "y \<in> set (if_given x f) \<longleftrightarrow> (\<exists>xs. x = Some xs \<and> xs \<noteq> [] \<and> y \<in> set (f xs))"
  by (cases x) auto

lemma add_code_block_quiet: "s \<in> set (add_code_block c l n) \<Longrightarrow> quiet s"
  by (auto simp: add_code_block_def Let_def emit_quiet)

lemma add_table_quiet: "s \<in> set (add_table env d h) \<Longrightarrow> quiet s"
  by (auto simp: add_table_def emit_quiet table_quiet)

lemma description_bullets_quiet: "s \<in> set (description_bullets env d) \<Longrightarrow> quiet s"
proof (cases d)
  case None
  then show "s \<in> set (description_bullets env d) \<Longrightarrow> quiet s"
    by (simp add: description_bullets_def)
next
  case (Some x)
  then show "s \<in> set (description_bullets env d) \<Longrightarrow> quiet s"
    by (cases x) (auto simp: description_bullets_def emit_quiet para_quiet split: if_splits)
qed

lemma description_joined_quiet: "s \<in> set (description_joined env d) \<Longrightarrow> quiet s"
  by (auto simp: description_joined_def emit_quiet para_quiet split: if_splits)

lemma add_content_item_quiet: "s \<in> set (add_content_item env item) \<Longrightarrow> quiet s"
  by (auto simp: add_content_item_def in_if_given para_quiet add_image_quiet
        add_code_block_quiet add_table_quiet split: if_splits)

lemma reference_paragraph_quiet: "quiet (reference_paragraph env sty ir)"
  by (cases ir) (simp add: reference_paragraph_def para_quiet)

lemmas step_quiet =
  emit_quiet para_quiet para_opt_quiet in_if_given add_image_quiet mermaid_step_quiet
  add_code_block_quiet description_bullets_quiet description_joined_quiet
  add_content_item_quiet reference_paragraph_quiet

lemma add_title_page_ends: "add_title_page env page w = Inr w' \<Longrightarrow> ends_page w w'"
  unfolding add_title_page_def append_assoc [symmetric]
  by (erule page_ends [rotated]) (auto simp: step_quiet)

lemma add_toc_page_ends: "add_toc_page env page w = Inr w' \<Longrightarrow> ends_page w w'"
  unfolding add_toc_page_def append_assoc [symmetric]
  by (erule page_ends [rotated]) (auto simp: step_quiet)

lemma add_section_page_ends: "add_section_page env page w = Inr w' \<Longrightarrow> ends_page w w'"
  unfolding add_section_page_def append_assoc [symmetric]
  by (erule page_ends [rotated]) (auto simp: step_quiet)

lemma add_content_page_ends: "add_content_page env page w = Inr w' \<Longrightarrow> ends_page w w'"
  unfolding add_content_page_def append_assoc [symmetric]
  by (erule page_ends [rotated]) (auto simp: step_quiet)

lemma add_code_page_ends: "add_code_page env page w = Inr w' \<Longrightarrow> ends_page w w'"
  unfolding add_code_page_def append_assoc [symmetric]
  by (erule page_ends [rotated]) (auto simp: step_quiet)

lemma add_diagram_page_ends: "add_diagram_page env page w = Inr w' \<Longrightarrow> ends_page w w'"
  unfolding add_diagram_page_def append_assoc [symmetric]
  by (erule page_ends [rotated]) (auto simp: step_quiet)

lemma add_image_page_ends: "add_image_page env page w = Inr w' \<Longrightarrow> ends_page w w'"
  unfolding add_image_page_def append_assoc [symmetric]
  by (erule page_ends [rotated]) (auto simp: step_quiet)

lemma add_mermaid_page_ends: "add_mermaid_page env page w = Inr w' \<Longrightarrow> ends_page w w'"
  unfolding add_mermaid_page_def append_assoc [symmetric]
  by (erule page_ends [rotated]) (auto simp: step_quiet)

lemma add_summary_page_ends: "add_summary_page env page w = Inr w' \<Longrightarrow> ends_page w w'"
  unfolding add_summary_page_def append_assoc [symmetric]
  by (erule page_ends [rotated]) (auto simp: step_quiet)

lemma add_references_page_ends: "add_references_page env page w = Inr w' \<Longrightarrow> ends_page w w'"
  unfolding add_references_page_def append_assoc [symmetric]
  by (erule page_ends [rotated]) (auto simp del: upt_Suc simp: step_quiet)

lemma generate_page_ends: "generate_page env page w = Inr w' \<Longrightarrow> ends_page w w'"
  by (cases "page_type page")
    (simp_all add: generate_page_def add_title_page_ends add_toc_page_ends add_section_page_ends
       add_content_page_ends add_code_page_ends add_diagram_page_ends add_image_page_ends
       add_mermaid_page_ends add_summary_page_ends add_references_page_ends)

lemma count_list_append: "count_list (xs @ ys) a = count_list xs a + count_list ys a"
  by (induction xs) auto

lemma ends_page_group:
  assumes "ends_page w w'"
  obtains g where "story w' = story w @ g" and "page_group g"
proof -
  from assms obtain xs where xs: "story w' = story w @ xs @ [PageBreak]" "PageBreak \<notin> set xs"
    by (auto simp: ends_page_def)
  have "count_list xs PageBreak = 0" using xs(2) by (simp add: count_list_0_iff)
  then have "page_group (xs @ [PageBreak])"
    by (simp add: page_group_def count_list_append)
  with xs(1) show ?thesis using that by blast
qed

lemma count_breaks_concat:
  "list_all page_group gs \<Longrightarrow> count_list (concat gs) PageBreak = length gs"
  by (induction gs) (auto simp: count_list_append page_group_def)

lemma generate_pages_page_groups:
  assumes "generate_pages env w k ps = Inr (n, w')"
  shows "story w' = story w @ concat (page_groups env w ps)
         \<and> length (page_groups env w ps) = length ps
         \<and> list_all page_group (page_groups env w ps)
         \<and> n = k + length ps"
  using assms
proof (induction ps arbitrary: w k)
  case Nil
  then show ?case by simp
next
  case (Cons page rest)
  from Cons.prems obtain v where v: "generate_page env page w = Inr v"
    and rest: "generate_pages env v (Suc k) rest = Inr (n, w')"
    by (auto split: sum.splits)
  from generate_page_ends [OF v] obtain g where g: "story v = story w @ g" "page_group g"
    by (rule ends_page_group)
  have d: "drop (length (story w)) (story v) = g" using g(1) by simp
  from Cons.IH [OF rest] have ih: "story w' = story v @ concat (page_groups env v rest)"
    "length (page_groups env v rest) = length rest"
    "list_all page_group (page_groups env v rest)" "n = Suc k + length rest" by auto
  show ?case using v d g ih by simp
qed

lemma generate_pdf_InrD:
  assumes "generate_pdf env w doc = Inr (r, w')"
  obtains w1 where
    "generate_pages env (w\<lparr>story := []\<rparr>) 0 (pages doc) = Inr (pages_generated r, w1)"
    and "build_ok env (res_output r) (story w1) (fs w1)"
    and "w' = cleanup_downloaded_images env (w1\<lparr>story := []\<rparr>)"
  using assms
  by (auto simp: generate_pdf_def Let_def split: option.splits sum.splits prod.splits if_splits)

subsection \<open>Page breaks and cleanup\<close>

text \<open>
  C1 (as amended). For every document with \<open>N\<close> pages whose generation completes, the
  story handed to the backend, which builds the document from it, is the concatenation
  of the \<open>N\<close> groups of the run, one per page and in the order of the pages; each group
  ends with a page break and holds no other page break, so the story holds exactly \<open>N\<close>
  page breaks, and the result counts \<open>N\<close> pages. The claim as written speaks of every
  document; a page that raises ends the run without any output.
\<close>

theorem C1_page_breaks_in_order:
  assumes "generate_pdf env w doc = Inr (r, w')"
  shows "\<exists>w1. generate_pages env (w\<lparr>story := []\<rparr>) 0 (pages doc) = Inr (length (pages doc), w1)
           \<and> build_ok env (res_output r) (story w1) (fs w1)
           \<and> story w1 = concat (page_groups env (w\<lparr>story := []\<rparr>) (pages doc))
           \<and> length (page_groups env (w\<lparr>story := []\<rparr>) (pages doc)) = length (pages doc)
           \<and> list_all page_group (page_groups env (w\<lparr>story := []\<rparr>) (pages doc))
           \<and> count_list (story w1) PageBreak = length (pages doc)
           \<and> pages_generated r = length (pages doc)"
proof -
  from assms obtain w1 where
    run: "generate_pages env (w\<lparr>story := []\<rparr>) 0 (pages doc) = Inr (pages_generated r, w1)"
    and built: "build_ok env (res_output r) (story w1) (fs w1)"
    by (rule generate_pdf_InrD)
  let ?gs = "page_groups env (w\<lparr>story := []\<rparr>) (pages doc)"
  from generate_pages_page_groups [OF run] have
    gs: "story w1 = concat ?gs" "length ?gs = length (pages doc)" "list_all page_group ?gs"
        "pages_generated r = length (pages doc)" by auto
  from gs(3) have "count_list (concat ?gs) PageBreak = length ?gs" by (rule count_breaks_concat)
  with run built gs show ?thesis by auto
qed

text \<open>
  The claim of C1 as written fails on a document whose only page is a title page with
  no title: the run raises after the top spacer, and no page break is emitted for the
  one page.
\<close>

theorem C1_counterexample:
  "generate_pdf env0 world0 untitled_doc = Inl (AttributeError, world0\<lparr>story := [Spacer 200]\<rparr>)
   \<and> length (pages untitled_doc) = 1
   \<and> count_list [Spacer 200] PageBreak = 0"
  by (simp add: untitled_doc_def no_theme_def no_colors_def resolve_theme_def resolve_colors_def
        run_defs)

text \<open>C1 at a document of two pages, a remote image and a diagram that fails to render.\<close>

theorem C1_witness:
  "generate_pdf env0 world0 two_page_doc = Inr (two_page_result, two_page_world)
   \<and> generate_pages env0 (world0\<lparr>story := []\<rparr>) 0 (pages two_page_doc) = Inr (2, two_page_built)
   \<and> story two_page_built = concat (page_groups env0 (world0\<lparr>story := []\<rparr>) (pages two_page_doc))
   \<and> count_list two_page_story PageBreak = 2
   \<and> pages_generated two_page_result = 2
   \<and> list_all page_group (page_groups env0 (world0\<lparr>story := []\<rparr>) (pages two_page_doc))"
proof -
  have l: "length (pages two_page_doc) = 2"
    by (simp add: two_page_doc_def doc_of_def)
  from C1_page_breaks_in_order [OF two_page_run]
  obtain w1 where
    "generate_pages env0 (world0\<lparr>story := []\<rparr>) 0 (pages two_page_doc)
       = Inr (length (pages two_page_doc), w1)"
    and "story w1 = concat (page_groups env0 (world0\<lparr>story := []\<rparr>) (pages two_page_doc))"
    and "count_list (story w1) PageBreak = length (pages two_page_doc)"
    and "pages_generated two_page_result = length (pages two_page_doc)"
    and "list_all page_group (page_groups env0 (world0\<lparr>story := []\<rparr>) (pages two_page_doc))"
    by blast
  with l two_page_pages two_page_run show ?thesis by (simp add: two_page_built_def)
qed

lemma generate_pages_downloads:
  "generate_pages env w k ps = Inr (n, w') \<Longrightarrow>
     \<exists>new. downloaded_images w' = downloaded_images w @ new"
proof (induction ps arbitrary: w k)
  case Nil
  then show ?case by simp
next
  case (Cons page rest)
  from Cons.prems obtain v where v: "generate_page env page w = Inr v"
    and rest: "generate_pages env v (Suc k) rest = Inr (n, w')"
    by (auto split: sum.splits)
  from generate_page_ends [OF v] obtain a where "downloaded_images v = downloaded_images w @ a"
    by (auto simp: ends_page_def)
  moreover from Cons.IH [OF rest] obtain b where "downloaded_images w' = downloaded_images v @ b"
    by blast
  ultimately show ?case by simp
qed

lemma cleanup_loop_eq:
  "cleanup_loop env ps files = files - {p \<in> set ps. can_unlink env p}"
  by (induction ps arbitrary: files) auto

text \<open>
  In every run that completes, the pages only add to the cleanup list, the document is
  built while the recorded files are in place, the list is drained once, after the
  build, and the run ends with an empty list; of the files that existed then, exactly
  the recorded ones whose \<open>os.unlink\<close> succeeds are gone. A deletion that fails leaves
  its file and does not fail the run.
\<close>

lemma cleanup_at_end_of_completed_run:
  assumes "generate_pdf env w doc = Inr (r, w')"
  shows "\<exists>w1 new.
           generate_pages env (w\<lparr>story := []\<rparr>) 0 (pages doc) = Inr (pages_generated r, w1)
           \<and> downloaded_images w1 = downloaded_images w @ new
           \<and> build_ok env (res_output r) (story w1) (fs w1)
           \<and> w' = cleanup_downloaded_images env (w1\<lparr>story := []\<rparr>)
           \<and> downloaded_images w' = []
           \<and> fs w' = fs w1 - {p \<in> set (downloaded_images w1). can_unlink env p}"
proof -
  from assms obtain w1 where
    run: "generate_pages env (w\<lparr>story := []\<rparr>) 0 (pages doc) = Inr (pages_generated r, w1)"
    and built: "build_ok env (res_output r) (story w1) (fs w1)"
    and w': "w' = cleanup_downloaded_images env (w1\<lparr>story := []\<rparr>)"
    by (rule generate_pdf_InrD)
  from generate_pages_downloads [OF run] obtain new where
    "downloaded_images w1 = downloaded_images w @ new" by auto
  moreover have "downloaded_images w' = []"
    using w' by (simp add: cleanup_downloaded_images_def)
  moreover have "fs w' = fs w1 - {p \<in> set (downloaded_images w1). can_unlink env p}"
    using w' by (simp add: cleanup_downloaded_images_def cleanup_loop_eq)
  ultimately show ?thesis using run built w' by blast
qed

text \<open>
  A page that raises ends \<open>generate_pdf\<close> with the world as the page has left it: the
  cleanup is not reached.
\<close>

lemma page_raises_no_cleanup:
  assumes "setup_styles env (theme doc) = None"
    and "resolve_output_dir env (path_of env (directory (doc_output doc))) = Inr dm"
    and "generate_pages env (w\<lparr>story := []\<rparr>) 0 (pages doc) = Inl (e, w1)"
  shows "generate_pdf env w doc = Inl (e, w1)"
  using assms by (cases dm) (simp add: generate_pdf_def Let_def)

text \<open>
  C2 (the code departs from the claim). The first page of \<open>leaking_doc\<close> downloads an
  image into a temporary file, the second is a title page with no title and raises. The
  exception leaves \<open>generate_pdf\<close> with the temporary file in place and still on the
  cleanup list: the cleanup runs only after the build, outside any \<open>finally\<close>.
\<close>

theorem C2_no_cleanup_when_a_page_raises:
  "generate_pdf env0 world0 leaking_doc =
     Inl (AttributeError,
          \<lparr>story = [Paragraph ''Logo'' S_h1, Spacer 20, Image ''/tmp/tmp.png'', PageBreak,
                    Spacer 200],
           downloaded_images = [''/tmp/tmp.png''], fs = {''/tmp/tmp.png''}, tmp_count = 1\<rparr>)"
  by (simp add: leaking_doc_def remote_image_page_def no_theme_def no_colors_def
        resolve_theme_def resolve_colors_def run_defs)

subsection \<open>File names\<close>


declare str_nat.simps [simp del]

















subsection \<open>The output directory\<close>








subsection \<open>The image shorthand\<close>

text \<open>
  C5 (as amended). A raw page dictionary with the key \<open>image\<close> is rewritten into the
  dictionary without this key and with the shorthand's value under one field:
  \<open>diagram_url\<close> or \<open>diagram_path\<close> when the page type is \<open>diagram\<close>, \<open>image_url\<close> or
  \<open>image_path\<close> for every other page type; the URL field when the value is a string
  that starts with \<open>http://\<close> or \<open>https://\<close>, the path field for every other value. No
  other key is touched: the sibling field of the chosen pair stays as the input has it,
  unset when the input does not set it.
\<close>

theorem C5_image_shorthand:
  assumes "vs ''image'' = Some v"
  shows "handle_image_field vs = (vs(''image'' := None))(image_target vs v \<mapsto> v)
         \<and> handle_image_field vs ''image'' = None
         \<and> handle_image_field vs (image_target vs v) = Some v
         \<and> (\<forall>k. k \<noteq> ''image'' \<and> k \<noteq> image_target vs v \<longrightarrow>
               handle_image_field vs k = vs k)
         \<and> handle_image_field vs (sibling_of (image_target vs v))
             = vs (sibling_of (image_target vs v))
         \<and> image_target vs v =
             (if is_diagram (vs ''page_type'')
              then (if is_url_value v then ''diagram_url'' else ''diagram_path'')
              else (if is_url_value v then ''image_url'' else ''image_path''))
         \<and> (is_url_value (PyStr s) \<longleftrightarrow> startswith s ''http://'' \<or> startswith s ''https://'')
         \<and> (is_diagram (Some (PyStr s)) \<longleftrightarrow> s = ''diagram'')"
proof -
  have t: "image_target vs v \<noteq> ''image''"
    by (simp add: image_target_def)
  have h: "handle_image_field vs = (vs(''image'' := None))(image_target vs v \<mapsto> v)"
    using assms by (simp add: handle_image_field_def image_target_def Let_def)
  show ?thesis
    unfolding h using t by (simp add: image_target_def is_url_def sibling_of_def)
qed

text \<open>
  The claim of C5 as written fails on a dictionary that sets the sibling field itself:
  the shorthand goes to \<open>diagram_url\<close>, and \<open>diagram_path\<close> keeps the value of the
  input, so both fields of the pair are set.
\<close>

theorem C5_counterexample:
  "both_shorthand ''image'' = Some (PyStr ''https://example.com/d.png'')
   \<and> handle_image_field both_shorthand ''diagram_url'' = Some (PyStr ''https://example.com/d.png'')
   \<and> handle_image_field both_shorthand ''diagram_path'' = Some (PyStr ''local.png'')"
  by (simp add: both_shorthand_def handle_image_field_def Let_def is_url_def startswith_def)

text \<open>
  C5 at a diagram page with an \<open>https\<close> URL and at an image page with a local path.
\<close>

theorem C5_witness:
  "handle_image_field diagram_shorthand ''diagram_url'' = Some (PyStr ''https://example.com/d.png'')
   \<and> handle_image_field diagram_shorthand ''diagram_path'' = None
   \<and> handle_image_field diagram_shorthand ''image'' = None
   \<and> handle_image_field image_shorthand ''image_path'' = Some (PyStr ''pics/local.png'')
   \<and> handle_image_field image_shorthand ''image_url'' = None
   \<and> handle_image_field image_shorthand ''image'' = None"
proof -
  have d: "diagram_shorthand ''image'' = Some (PyStr ''https://example.com/d.png'')"
    by (simp add: diagram_shorthand_def)
  have i: "image_shorthand ''image'' = Some (PyStr ''pics/local.png'')"
    by (simp add: image_shorthand_def)
  have td: "image_target diagram_shorthand (PyStr ''https://example.com/d.png'') = ''diagram_url''"
    by (simp add: image_target_def diagram_shorthand_def is_url_def startswith_def)
  have ti: "image_target image_shorthand (PyStr ''pics/local.png'') = ''image_path''"
    by (simp add: image_target_def image_shorthand_def is_url_def startswith_def)
  from C5_image_shorthand [where vs = diagram_shorthand, OF d]
       C5_image_shorthand [where vs = image_shorthand, OF i] show ?thesis
    unfolding td ti by (simp add: diagram_shorthand_def image_shorthand_def sibling_of_def)
qed

text \<open>
  C6. Resolving a theme is a total function. A theme that supplies only \<open>colors.primary\<close>
  resolves to the default theme with that primary colour: \<open>colors.secondary\<close> and every
  other field are at their defaults. The colours depend only on the colours supplied and
  the fonts only on the fonts supplied, and inside a group a supplied field changes that
  field alone.
\<close>

theorem C6_theme_overlay:
  "resolve_theme (no_theme\<lparr>in_colors := Some (no_colors\<lparr>in_primary := Some c\<rparr>)\<rparr>)
     = default_theme\<lparr>colors := (colors default_theme)\<lparr>primary := c\<rparr>\<rparr>
   \<and> secondary (colors (resolve_theme
         (no_theme\<lparr>in_colors := Some (no_colors\<lparr>in_primary := Some c\<rparr>)\<rparr>))) = ''#1CCBD0''
   \<and> resolve_theme no_theme = default_theme
   \<and> colors (resolve_theme t) = resolve_colors (field no_colors (in_colors t))
   \<and> fonts (resolve_theme t) = resolve_fonts (field no_fonts (in_fonts t))
   \<and> colors (resolve_theme (t\<lparr>in_fonts := fi\<rparr>)) = colors (resolve_theme t)
   \<and> fonts (resolve_theme (t\<lparr>in_colors := ci\<rparr>)) = fonts (resolve_theme t)
   \<and> resolve_colors (ci'\<lparr>in_primary := Some c\<rparr>) = (resolve_colors ci')\<lparr>primary := c\<rparr>
   \<and> resolve_fonts (fi'\<lparr>in_heading := Some h\<rparr>) = (resolve_fonts fi')\<lparr>heading := h\<rparr>"
  by (simp add: resolve_theme_def resolve_colors_def resolve_fonts_def no_theme_def
        no_colors_def no_fonts_def default_theme_def)

subsection \<open>Running the steps of a page\<close>

lemma story_append_append: "story_append (story_append w xs) ys = story_append w (xs @ ys)"
  by (simp add: story_append_def)

lemma story_append_Nil: "story_append w [] = w"
  by (simp add: story_append_def)

lemma para_accepted:
  "accepts env t st \<Longrightarrow> para env t st w = Inr (story_append w [Paragraph t st])"
  by (simp add: para_def accepts_def)

lemma para_opt_simps:
  "para_opt env None st w = Inl (AttributeError, w)"
  "para_opt env (Some t) st w = para env t st w"
  by (simp_all add: para_opt_def)

lemma accepted_map:
  "accepted env (map (\<lambda>x. Paragraph (f x) st) l) \<longleftrightarrow> (\<forall>x \<in> set l. accepts env (f x) st)"
  by (induction l) auto

lemma run_map_para:
  "\<forall>x \<in> set l. accepts env (f x) st \<Longrightarrow>
     run (map (\<lambda>x. para env (f x) st) l @ rest) w
       = run rest (story_append w (map (\<lambda>x. Paragraph (f x) st) l))"
proof (induction l arbitrary: w)
  case Nil
  show ?case by (simp add: story_append_Nil)
next
  case (Cons x l)
  then show ?case by (simp add: para_accepted story_append_append)
qed

lemma run_description_bullets:
  assumes "accepted env (bullets_of d)"
  shows "run (description_bullets env d @ rest) w = run rest (story_append w (bullets_of d))"
proof (cases "description_truthy d")
  case False
  then show ?thesis by (simp add: description_bullets_def bullets_of_def story_append_Nil)
next
  case True
  then obtain x where d: "d = Some x" by (cases d) auto
  show ?thesis
  proof (cases x)
    case (DescStr s)
    with d True assms show ?thesis
      by (simp add: description_bullets_def bullets_of_def emit_def para_accepted
            story_append_append)
  next
    case (DescList l)
    with d True assms have "\<forall>x \<in> set l. accepts env (bullet_text x) S_bullet"
      by (simp add: bullets_of_def accepted_map)
    from run_map_para [OF this] d True DescList show ?thesis
      by (simp add: description_bullets_def bullets_of_def emit_def story_append_append)
  qed
qed



lemma mermaid_page_steps:
  assumes "page_type page = MERMAID"
  shows "generate_page env page w =
           run ([para_opt env (title page) S_h1, emit (Spacer 20)]
                @ if_given (mermaid_code page) (\<lambda>src. [mermaid_step env page src])
                @ description_bullets env (description page)
                @ [emit PageBreak]) w"
  using assms by (simp add: generate_page_def add_mermaid_page_def)




subsection \<open>Diagram and image pages\<close>








subsection \<open>Pages with no title\<close>

lemma generate_pages_abort:
  assumes "\<And>v. \<exists>e v'. generate_page env page v = Inl (e, v')"
  shows "\<exists>e w'. generate_pages env w k (qs @ page # rest) = Inl (e, w')"
proof (induction qs arbitrary: w k)
  case Nil
  from assms [of w] show ?case by auto
next
  case (Cons q qs)
  show ?case
  proof (cases "generate_page env q w")
    case (Inl ew)
    then show ?thesis by (cases ew) simp
  next
    case (Inr v)
    with Cons.IH [of v "Suc k"] show ?thesis by simp
  qed
qed

lemma generate_pdf_abort:
  assumes "\<And>v. \<exists>e v'. generate_page env page v = Inl (e, v')" and "page \<in> set (pages doc)"
  shows "\<exists>e w'. generate_pdf env w doc = Inl (e, w')"
proof -
  from assms(2) obtain qs rest where ps: "pages doc = qs @ page # rest"
    by (auto dest: split_list)
  obtain e w' where "generate_pages env (w\<lparr>story := []\<rparr>) 0 (pages doc) = Inl (e, w')"
    using generate_pages_abort [OF assms(1), of "w\<lparr>story := []\<rparr>" 0 qs rest] ps by auto
  then show ?thesis
    by (auto simp: generate_pdf_def Let_def split: option.splits sum.splits prod.splits)
qed

lemma untitled_page_raises:
  assumes "page_type page = TITLE \<or> page_type page = SECTION \<or> page_type page = CONTENT"
    and "title page = None"
  shows "generate_page env page w =
           Inl (AttributeError,
                story_append w (if page_type page = TITLE then [Spacer 200]
                                else if page_type page = SECTION then [Spacer 250] else []))"
  using assms
  by (auto simp: generate_page_def add_title_page_def add_section_page_def add_content_page_def
        para_opt_def emit_def story_append_def)

text \<open>
  C9. A title, section or content page whose \<open>title\<close> is \<open>None\<close> is a value of
  \<open>PageSpec\<close>, and composing it raises: the title paragraph is not left out. The
  exception ends the loop over the pages wherever the page stands, and with it
  \<open>generate_pdf\<close>. The optional fields are guarded: the same title or section page
  with its title set and with no subtitle, author, date or additional information
  raises only when the backend rejects the title, and is the spacer, the title and the
  page break otherwise.
\<close>

theorem C9_missing_title_raises:
  assumes "page_type page = TITLE \<or> page_type page = SECTION \<or> page_type page = CONTENT"
    and "title page = None"
  shows "generate_page env page w =
           Inl (AttributeError,
                story_append w (if page_type page = TITLE then [Spacer 200]
                                else if page_type page = SECTION then [Spacer 250] else []))
         \<and> (\<exists>e w'. generate_pages env w k (qs @ page # rest) = Inl (e, w'))
         \<and> (page \<in> set (pages doc) \<longrightarrow> (\<exists>e w'. generate_pdf env w doc = Inl (e, w')))
         \<and> (page_type page = TITLE \<and> additional_info page = None \<longrightarrow>
              generate_page env
                (page\<lparr>title := Some t, subtitle := None, author := None, date := None\<rparr>) w
              = (case paragraph_error env t S_title of
                   Some msg \<Rightarrow> Inl (ValueError msg, story_append w [Spacer 200])
                 | None \<Rightarrow> Inr (story_append w [Spacer 200, Paragraph t S_title, PageBreak])))
         \<and> (page_type page = SECTION \<longrightarrow>
              generate_page env (page\<lparr>title := Some t, subtitle := None\<rparr>) w
              = (case paragraph_error env t S_title of
                   Some msg \<Rightarrow> Inl (ValueError msg, story_append w [Spacer 250])
                 | None \<Rightarrow> Inr (story_append w [Spacer 250, Paragraph t S_title, PageBreak])))"
proof -
  have r: "\<And>v. \<exists>e v'. generate_page env page v = Inl (e, v')"
    using untitled_page_raises [OF assms] by blast
  have a: "\<exists>e w'. generate_pages env w k (qs @ page # rest) = Inl (e, w')"
    using r by (rule generate_pages_abort)
  have b: "page \<in> set (pages doc) \<longrightarrow> (\<exists>e w'. generate_pdf env w doc = Inl (e, w'))"
    using generate_pdf_abort [OF r] by blast
  have c: "page_type page = TITLE \<and> additional_info page = None \<longrightarrow>
              generate_page env
                (page\<lparr>title := Some t, subtitle := None, author := None, date := None\<rparr>) w
              = (case paragraph_error env t S_title of
                   Some msg \<Rightarrow> Inl (ValueError msg, story_append w [Spacer 200])
                 | None \<Rightarrow> Inr (story_append w [Spacer 200, Paragraph t S_title, PageBreak]))"
    by (simp add: generate_page_def add_title_page_def para_opt_def para_def emit_def
          story_append_def split: option.splits)
  have d: "page_type page = SECTION \<longrightarrow>
              generate_page env (page\<lparr>title := Some t, subtitle := None\<rparr>) w
              = (case paragraph_error env t S_title of
                   Some msg \<Rightarrow> Inl (ValueError msg, story_append w [Spacer 250])
                 | None \<Rightarrow> Inr (story_append w [Spacer 250, Paragraph t S_title, PageBreak]))"
    by (simp add: generate_page_def add_section_page_def para_opt_def para_def emit_def
          story_append_def split: option.splits)
  from untitled_page_raises [OF assms] a b c d show ?thesis by blast
qed

text \<open>C9 at the three kinds of page with no field set, at a title page with a title, and
  at a title page whose title the backend of \<open>env0\<close> rejects.\<close>

theorem C9_witness:
  "generate_page env0 (blank_page TITLE) world0
     = Inl (AttributeError, world0\<lparr>story := [Spacer 200]\<rparr>)
   \<and> generate_page env0 (blank_page SECTION) world0
     = Inl (AttributeError, world0\<lparr>story := [Spacer 250]\<rparr>)
   \<and> generate_page env0 (blank_page CONTENT) world0 = Inl (AttributeError, world0)
   \<and> (\<exists>e w'. generate_pdf env0 world0 leaking_doc = Inl (e, w'))
   \<and> generate_page env0 ((blank_page TITLE)\<lparr>title := Some ''T''\<rparr>) world0
     = Inr (world0\<lparr>story := [Spacer 200, Paragraph ''T'' S_title, PageBreak]\<rparr>)
   \<and> generate_page env0 ((blank_page TITLE)\<lparr>title := Some ''Q3 <b>Report''\<rparr>) world0
     = Inl (ValueError ''Parse error: Q3 <b>Report'', world0\<lparr>story := [Spacer 200]\<rparr>)"
proof -
  have t: "page_type (blank_page TITLE) = TITLE \<or> page_type (blank_page TITLE) = SECTION
            \<or> page_type (blank_page TITLE) = CONTENT"
    and s: "page_type (blank_page SECTION) = TITLE \<or> page_type (blank_page SECTION) = SECTION
            \<or> page_type (blank_page SECTION) = CONTENT"
    and c: "page_type (blank_page CONTENT) = TITLE \<or> page_type (blank_page CONTENT) = SECTION
            \<or> page_type (blank_page CONTENT) = CONTENT"
    and n: "title (blank_page TITLE) = None" "title (blank_page SECTION) = None"
           "title (blank_page CONTENT) = None"
    by (simp_all add: blank_page_def)
  have m: "blank_page TITLE \<in> set (pages leaking_doc)"
    by (simp add: leaking_doc_def doc_of_def)
  have u: "(blank_page TITLE)\<lparr>title := Some x, subtitle := None, author := None, date := None\<rparr>
            = (blank_page TITLE)\<lparr>title := Some x\<rparr>" for x
    by (simp add: blank_page_def)
  from C9_missing_title_raises [OF t n(1), where env = env0 and w = world0 and doc = leaking_doc
         and t = "''T''"]
       C9_missing_title_raises [OF t n(1), where env = env0 and w = world0
         and t = "''Q3 <b>Report''"]
       C9_missing_title_raises [OF s n(2), where env = env0 and w = world0]
       C9_missing_title_raises [OF c n(3), where env = env0 and w = world0]
       m
  show ?thesis
    unfolding u by (simp add: blank_page_def story_append_def world0_def env0_fields)
qed

subsection \<open>Mermaid pages with no diagram source\<close>

lemma if_not_given: "\<not> truthy x \<Longrightarrow> if_given x f = []"
  by (cases x) auto

lemma bullets_of_no_image: "Image p \<notin> set (bullets_of d)"
  by (auto simp: bullets_of_def split: option.splits description.splits)

text \<open>
  C10 (as amended). On a mermaid page whose \<open>mermaid_code\<close> is \<open>None\<close> or empty, the
  renderer is not called: the steps of the page are the heading, the spacer, the
  description and the page break. With a title, when the backend accepts the title
  and the description as paragraphs, the page is composed, the world changes in its
  story only, and the page is the heading, the spacer, the rendering of the description
  (nothing when there is no description) and the page break, with no image in it. With
  no title the heading raises.
\<close>

theorem C10_no_mermaid_code:
  assumes "page_type page = MERMAID" and "\<not> truthy (mermaid_code page)"
  shows "generate_page env page w =
           run ([para_opt env (title page) S_h1, emit (Spacer 20)]
                @ description_bullets env (description page) @ [emit PageBreak]) w
         \<and> (title page = Some t \<and> accepts env t S_h1 \<and> accepted env (bullets_of (description page))
              \<longrightarrow> generate_page env page w =
                    Inr (story_append w
                           ([Paragraph t S_h1, Spacer 20]
                            @ bullets_of (description page) @ [PageBreak])))
         \<and> (title page = None \<longrightarrow> generate_page env page w = Inl (AttributeError, w))
         \<and> Image p \<notin> set (bullets_of (description page))
         \<and> (description page = None \<longrightarrow> bullets_of (description page) = [])"
proof -
  have g: "generate_page env page w =
           run ([para_opt env (title page) S_h1, emit (Spacer 20)]
                @ description_bullets env (description page) @ [emit PageBreak]) w"
    unfolding mermaid_page_steps [OF assms(1)] if_not_given [OF assms(2)] by simp
  have a: "title page = Some t \<and> accepts env t S_h1 \<and> accepted env (bullets_of (description page))
              \<longrightarrow> generate_page env page w =
                    Inr (story_append w
                           ([Paragraph t S_h1, Spacer 20]
                            @ bullets_of (description page) @ [PageBreak]))"
  proof
    assume h: "title page = Some t \<and> accepts env t S_h1 \<and> accepted env (bullets_of (description page))"
    then have "accepted env (bullets_of (description page))" by simp
    from run_description_bullets [OF this, where rest = "[emit PageBreak]"] h
    show "generate_page env page w =
                    Inr (story_append w
                           ([Paragraph t S_h1, Spacer 20]
                            @ bullets_of (description page) @ [PageBreak]))"
      unfolding g
      by (simp add: para_opt_simps para_accepted emit_def story_append_append)
  qed
  have b: "title page = None \<longrightarrow> generate_page env page w = Inl (AttributeError, w)"
    unfolding g by (simp add: para_opt_simps)
  have c: "description page = None \<longrightarrow> bullets_of (description page) = []"
    by (simp add: bullets_of_def)
  from g a b bullets_of_no_image [of p "description page"] c show ?thesis by blast
qed

text \<open>
  The claim of C10 as written fails on a mermaid page with no diagram source and no
  title: composing the page raises.
\<close>

theorem C10_counterexample:
  "page_type (blank_page MERMAID) = MERMAID
   \<and> mermaid_code (blank_page MERMAID) = None
   \<and> generate_page env0 (blank_page MERMAID) world0 = Inl (AttributeError, world0)"
  by (simp add: run_defs)

text \<open>C10 at a page with an empty diagram source and at a page with none.\<close>

theorem C10_witness:
  "generate_page env0 empty_mermaid_page world0
     = Inr (world0\<lparr>story := [Paragraph ''Flow'' S_h1, Spacer 20, PageBreak]\<rparr>)
   \<and> generate_page env0 ((blank_page MERMAID)\<lparr>title := Some ''Flow''\<rparr>) world0
     = Inr (world0\<lparr>story := [Paragraph ''Flow'' S_h1, Spacer 20, PageBreak]\<rparr>)"
proof -
  have a: "page_type empty_mermaid_page = MERMAID" "\<not> truthy (mermaid_code empty_mermaid_page)"
          "title empty_mermaid_page = Some ''Flow''" "description empty_mermaid_page = None"
    by (simp_all add: empty_mermaid_page_def blank_page_def)
  have b: "page_type ((blank_page MERMAID)\<lparr>title := Some ''Flow''\<rparr>) = MERMAID"
          "\<not> truthy (mermaid_code ((blank_page MERMAID)\<lparr>title := Some ''Flow''\<rparr>))"
          "title ((blank_page MERMAID)\<lparr>title := Some ''Flow''\<rparr>) = Some ''Flow''"
          "description ((blank_page MERMAID)\<lparr>title := Some ''Flow''\<rparr>) = None"
    by (simp_all add: blank_page_def)
  have f: "accepts env0 ''Flow'' S_h1" by (simp add: accepts_def env0_fields)
  have e: "accepted env0 (bullets_of None)" by (simp add: bullets_of_def)
  have ha: "title empty_mermaid_page = Some ''Flow'' \<and> accepts env0 ''Flow'' S_h1
             \<and> accepted env0 (bullets_of (description empty_mermaid_page))"
    using a(3) f e unfolding a(4) by simp
  have hb: "title ((blank_page MERMAID)\<lparr>title := Some ''Flow''\<rparr>) = Some ''Flow''
             \<and> accepts env0 ''Flow'' S_h1
             \<and> accepted env0 (bullets_of (description ((blank_page MERMAID)\<lparr>title := Some ''Flow''\<rparr>)))"
    using b(3) f e unfolding b(4) by simp
  from C10_no_mermaid_code [OF a(1,2), where env = env0 and w = world0 and t = "''Flow''"] ha
  have x: "generate_page env0 empty_mermaid_page world0 =
             Inr (story_append world0
                    ([Paragraph ''Flow'' S_h1, Spacer 20]
                     @ bullets_of (description empty_mermaid_page) @ [PageBreak]))"
    by blast
  from C10_no_mermaid_code [OF b(1,2), where env = env0 and w = world0 and t = "''Flow''"] hb
  have y: "generate_page env0 ((blank_page MERMAID)\<lparr>title := Some ''Flow''\<rparr>) world0 =
             Inr (story_append world0
                    ([Paragraph ''Flow'' S_h1, Spacer 20]
                     @ bullets_of (description ((blank_page MERMAID)\<lparr>title := Some ''Flow''\<rparr>))
                     @ [PageBreak]))"
    by blast
  show ?thesis
    unfolding x y a(4) b(4) by (simp add: story_append_def world0_def bullets_of_def)
qed

end
